theory Spec2Isabelle
  imports Complex_Main
begin

section \<open>Data model\<close>

text \<open>
  Documents of the collections the live-session runtime reads and writes
  (models file, schemas \<^verbatim>\<open>challengeSchema\<close>, \<^verbatim>\<open>ratingSchema\<close>,
  \<^verbatim>\<open>transactionSchema\<close>, \<^verbatim>\<open>advertisementSchema\<close>, \<^verbatim>\<open>userSchema\<close>).
  An ObjectId is modelled by its string form, the way the controllers compare
  ids (\<^verbatim>\<open>a.toString() === b.toString()\<close>). A JavaScript Number is modelled
  as an exact rational: rounding of IEEE doubles is not part of the model.
  A Date is a natural number of milliseconds. Fields that no modelled
  controller reads or writes (title, rules, localisation, ...) are left out.
\<close>

type_synonym oid = string

datatype challenge_status = Pending | Scheduled | Live | Completed | Cancelled

text \<open>
  The status of a binding of an advertisement to a challenge is one of the
  three values of the schema's enum. \<^verbatim>\<open>challenge.save()\<close> validates the
  bindings, so no stored challenge has a binding with another status.
\<close>

datatype ad_status = AdPending | AdDisplayed | AdRejected

record ad_binding =
  adId :: oid
  adStatus :: ad_status
  rejectedBy :: "oid option"
  rejectionReason :: "string option"

record revenue_distribution =
  platform :: rat
  rd_creator :: rat
  rd_opponent :: rat

record challenge_doc =
  creator :: oid
  opponent :: "oid option"
  status :: challenge_status
  startedAt :: "nat option"
  endedAt :: "nat option"
  creatorYoutubeUrl :: "string option"
  opponentYoutubeUrl :: "string option"
  creatorStreamKey :: "string option"
  opponentStreamKey :: "string option"
  creatorBroadcastId :: "string option"
  opponentBroadcastId :: "string option"
  advertisements :: "ad_binding list"
  totalRevenue :: rat
  revenueDistribution :: revenue_distribution
  viewerCount :: nat
  peakViewers :: nat
  totalRatings :: nat
  creatorRatingSum :: rat
  opponentRatingSum :: rat
  creatorRatingCount :: nat
  opponentRatingCount :: nat

record rating_doc =
  challenge :: oid
  rater :: oid
  competitorRated :: oid
  score :: rat
  timestamp :: nat

record advertisement_doc =
  paidAmount :: rat
  docStatus :: string
  docRejectedBy :: "oid option"
  docRejectionReason :: "string option"
  rejectionDate :: "nat option"

record user_doc =
  role :: string
  youtubeLinked :: bool
  youtubeAccessToken :: string
  youtubeRefreshToken :: string
  totalEarnings :: rat
  totalChallenges :: nat

datatype competitor_role = RoleCreator | RoleOpponent

record transaction_doc =
  t_user :: oid
  t_challenge :: oid
  amount :: rat
  ratingPercentage :: rat
  totalChallengeRevenue :: rat
  competitorRole :: competitor_role

record db =
  challenges :: "oid \<rightharpoonup> challenge_doc"
  ratings :: "rating_doc list"
  ads :: "oid \<rightharpoonup> advertisement_doc"
  users :: "oid \<rightharpoonup> user_doc"
  transactions :: "transaction_doc list"

section \<open>Controllers\<close>

text \<open>
  A controller is a function from the request and the database to the
  response and the database it leaves behind. A response is either the error
  code of the JSON body (or the name of the exception that reaches the error
  middleware through \<^verbatim>\<open>asyncHandler\<close>), or success. \<^verbatim>\<open>new Date()\<close> is the
  parameter \<open>now\<close>. Socket emissions and log lines of the HTTP controllers
  do not touch the database and are not part of the result.
\<close>

datatype error_code =
    CHALLENGE_NOT_FOUND | NOT_PARTICIPANT | NO_OPPONENT | ALREADY_LIVE
  | ALREADY_COMPLETED | YOUTUBE_NOT_LINKED | YOUTUBE_API_ERROR | NOT_LIVE
  | FORBIDDEN | CANNOT_CANCEL | INVALID_COMPETITOR | AD_NOT_FOUND
  | ValidationError | TypeError | SyntaxError

type_synonym response = "error_code + unit"

text \<open>
  \<^verbatim>\<open>challenge.save()\<close>: the loaded document replaces the stored one. The
  validators of \<^verbatim>\<open>challengeSchema\<close> that a modelled controller could violate
  are the enums of the challenge status and of the binding status; both hold
  of every document by its type.
\<close>

definition save :: "oid \<Rightarrow> challenge_doc \<Rightarrow> db \<Rightarrow> db" where
  "save cid c d = d\<lparr>challenges := (challenges d)(cid \<mapsto> c)\<rparr>"

text \<open>
  The participant test of \<^verbatim>\<open>endChallenge\<close> and \<^verbatim>\<open>rejectAdvertisement\<close>:
  \<^verbatim>\<open>creator === user || (opponent && opponent === user)\<close>.
\<close>

definition isParticipant :: "challenge_doc \<Rightarrow> oid \<Rightarrow> bool" where
  "isParticipant c uid =
     (creator c = uid \<or> (case opponent c of None \<Rightarrow> False | Some opp \<Rightarrow> opp = uid))"

text \<open>\<^verbatim>\<open>Rating.find({challenge, competitorRated})\<close>; a null participant matches no record.\<close>

definition findRatings :: "db \<Rightarrow> oid \<Rightarrow> oid option \<Rightarrow> rating_doc list" where
  "findRatings d cid who =
     (case who of
        None \<Rightarrow> []
      | Some u \<Rightarrow> filter (\<lambda>r. challenge r = cid \<and> competitorRated r = u) (ratings d))"

text \<open>\<^verbatim>\<open>rs.reduce((sum, r) => sum + r.score, 0)\<close>.\<close>

definition scoreTotal :: "rating_doc list \<Rightarrow> rat" where
  "scoreTotal rs = foldl (\<lambda>sum r. sum + score r) 0 rs"

subsection \<open>endChallenge\<close>

text \<open>
  The handler (lines 891-1051 of the challenge controller) computes the total
  revenue by
  \<^verbatim>\<open>displayedAds.reduce((sum, ad) => { const adDoc = await Advertisement.findById(ad.adId); ... }, 0)\<close>:
  an \<^verbatim>\<open>await\<close> in a callback that is not \<^verbatim>\<open>async\<close>. This is a syntax error
  of JavaScript, so the text of \<^verbatim>\<open>endChallenge\<close> is not a function: a request
  to the route runs none of its statements, neither the guards nor the
  computation of the shares nor \<^verbatim>\<open>challenge.save()\<close>, and is answered by an
  error.
\<close>

definition endChallenge :: "nat \<Rightarrow> oid \<Rightarrow> oid \<Rightarrow> db \<Rightarrow> response \<times> db" where
  "endChallenge now reqUser cid d = (Inl SyntaxError, d)"

subsection \<open>cancelChallenge\<close>

text \<open>\<^verbatim>\<open>req.user\<close> is the caller's id and role. The only status guard is on \<^verbatim>\<open>'completed'\<close>.\<close>

definition cancelChallenge :: "oid \<Rightarrow> string \<Rightarrow> oid \<Rightarrow> db \<Rightarrow> response \<times> db" where
  "cancelChallenge reqUser reqRole cid d =
     (case challenges d cid of
        None \<Rightarrow> (Inl CHALLENGE_NOT_FOUND, d)
      | Some c \<Rightarrow>
          let isCreator = (creator c = reqUser);
              isAdmin = (reqRole = ''admin'')
          in
          if \<not> isCreator \<and> \<not> isAdmin then (Inl FORBIDDEN, d)
          else if status c = Completed then (Inl CANNOT_CANCEL, d)
          else (Inr (), save cid (c\<lparr>status := Cancelled\<rparr>) d))"

subsection \<open>startChallenge\<close>

text \<open>
  What \<^verbatim>\<open>createLiveBroadcast\<close> resolves to. The streaming provider is outside
  the repository: \<open>decrypt\<close> stands for \<^verbatim>\<open>decrypt(JSON.parse(token))\<close>, and
  \<open>createLiveBroadcast\<close> for the answer of the provider to one of the two calls
  of \<^verbatim>\<open>Promise.all\<close>, made under the credentials that the client holds;
  \<open>None\<close> is a thrown error or a rejected promise.
\<close>

record broadcast =
  broadcastId :: string
  streamKey :: string
  streamUrl :: string
  embedUrl :: string
  watchUrl :: string

datatype broadcast_call = CreatorCall | OpponentCall

type_synonym credentials = "string \<times> string"
type_synonym decryptor = "string \<Rightarrow> string option"
type_synonym provider = "broadcast_call \<Rightarrow> credentials \<Rightarrow> broadcast option"

text \<open>
  \<^verbatim>\<open>getYouTubeService(accessToken, refreshToken)\<close> of the YouTube
  configuration: it sets the credentials of the one \<^verbatim>\<open>oauth2Client\<close> of the
  module and returns a service on that client. The result here is the
  credentials the shared client holds after the call.
\<close>

definition getYouTubeService :: "string \<Rightarrow> string \<Rightarrow> credentials" where
  "getYouTubeService accessToken refreshToken = (accessToken, refreshToken)"

text \<open>
  The \<^verbatim>\<open>try\<close> block up to \<^verbatim>\<open>Promise.all\<close>: the four tokens are decrypted,
  the creator's service is made, then the opponent's. Both services are on
  the shared client, which holds the opponent's credentials from then on, so
  both broadcasts are requested under the opponent's credentials.
\<close>

definition createBroadcasts ::
  "decryptor \<Rightarrow> provider \<Rightarrow> user_doc \<Rightarrow> user_doc \<Rightarrow> (broadcast \<times> broadcast) option" where
  "createBroadcasts decrypt createLiveBroadcast creatorDoc oppDoc =
     (case decrypt (youtubeAccessToken creatorDoc) of
        None \<Rightarrow> None
      | Some creatorAccess \<Rightarrow>
     (case decrypt (youtubeRefreshToken creatorDoc) of
        None \<Rightarrow> None
      | Some creatorRefresh \<Rightarrow>
     (case decrypt (youtubeAccessToken oppDoc) of
        None \<Rightarrow> None
      | Some opponentAccess \<Rightarrow>
     (case decrypt (youtubeRefreshToken oppDoc) of
        None \<Rightarrow> None
      | Some opponentRefresh \<Rightarrow>
          let oauth2Client = getYouTubeService creatorAccess creatorRefresh;
              oauth2Client = getYouTubeService opponentAccess opponentRefresh
          in (case (createLiveBroadcast CreatorCall oauth2Client,
                    createLiveBroadcast OpponentCall oauth2Client) of
                (Some creatorBroadcast, Some opponentBroadcast) \<Rightarrow>
                  Some (creatorBroadcast, opponentBroadcast)
              | _ \<Rightarrow> None)))))"

text \<open>
  \<^verbatim>\<open>startChallenge\<close> up to \<^verbatim>\<open>challenge.save()\<close>: the answer that the handler
  derives from the database as it loaded it, an error code or the document
  it is about to save. The challenge is loaded with creator and opponent
  populated: a creator whose user document is gone makes
  \<^verbatim>\<open>challenge.creator._id\<close> a TypeError, an opponent whose document is gone
  reads as no opponent. The assignments to the challenge come after
  \<^verbatim>\<open>Promise.all\<close> has resolved; any error in the \<^verbatim>\<open>try\<close> block is answered
  \<^verbatim>\<open>YOUTUBE_API_ERROR\<close>.
\<close>

definition startRequest ::
  "decryptor \<Rightarrow> provider \<Rightarrow> nat \<Rightarrow> oid \<Rightarrow> oid \<Rightarrow> db \<Rightarrow> error_code + challenge_doc" where
  "startRequest decrypt createLiveBroadcast now reqUser cid d =
     (case challenges d cid of
        None \<Rightarrow> Inl CHALLENGE_NOT_FOUND
      | Some c \<Rightarrow>
          (case users d (creator c) of
             None \<Rightarrow> Inl TypeError
           | Some creatorDoc \<Rightarrow>
               let opponentDoc = (case opponent c of None \<Rightarrow> None | Some opp \<Rightarrow> users d opp) in
               if \<not> (creator c = reqUser \<or> (opponentDoc \<noteq> None \<and> opponent c = Some reqUser))
               then Inl NOT_PARTICIPANT
               else
                 (case opponentDoc of
                    None \<Rightarrow> Inl NO_OPPONENT
                  | Some oppDoc \<Rightarrow>
                      if status c = Live then Inl ALREADY_LIVE
                      else if status c = Completed then Inl ALREADY_COMPLETED
                      else if \<not> youtubeLinked creatorDoc \<or> \<not> youtubeLinked oppDoc
                      then Inl YOUTUBE_NOT_LINKED
                      else
                        (case createBroadcasts decrypt createLiveBroadcast creatorDoc oppDoc of
                           Some (creatorBroadcast, opponentBroadcast) \<Rightarrow>
                             Inr (c\<lparr>status := Live, startedAt := Some now,
                                creatorYoutubeUrl := Some (embedUrl creatorBroadcast),
                                opponentYoutubeUrl := Some (embedUrl opponentBroadcast),
                                creatorStreamKey := Some (streamKey creatorBroadcast),
                                opponentStreamKey := Some (streamKey opponentBroadcast),
                                creatorBroadcastId := Some (broadcastId creatorBroadcast),
                                opponentBroadcastId := Some (broadcastId opponentBroadcast)\<rparr>)
                         | None \<Rightarrow> Inl YOUTUBE_API_ERROR))))"

text \<open>\<^verbatim>\<open>startChallenge\<close>: the handler run from its load to its save without another request in between.\<close>

definition startChallenge ::
  "decryptor \<Rightarrow> provider \<Rightarrow> nat \<Rightarrow> oid \<Rightarrow> oid \<Rightarrow> db \<Rightarrow> response \<times> db" where
  "startChallenge decrypt createLiveBroadcast now reqUser cid d =
     (case startRequest decrypt createLiveBroadcast now reqUser cid d of
        Inl err \<Rightarrow> (Inl err, d)
      | Inr c' \<Rightarrow> (Inr (), save cid c' d))"

text \<open>
  Two requests to start the same challenge that are handled at the same time:
  the handler awaits the load, the provider and the save, and takes no lock,
  so both requests can load the challenge before either saves it. Each
  answers from the database as it loaded it; the saves follow one another.
  A request is \<open>startRequest\<close> with its arguments up to the challenge id;
  the result is the two responses and the database after both.
\<close>

definition simultaneousStarts ::
  "(oid \<Rightarrow> db \<Rightarrow> error_code + challenge_doc) \<Rightarrow> (oid \<Rightarrow> db \<Rightarrow> error_code + challenge_doc)
     \<Rightarrow> oid \<Rightarrow> db \<Rightarrow> response \<times> response \<times> db" where
  "simultaneousStarts first second cid d =
     (let loaded1 = first cid d;
          loaded2 = second cid d;
          d1 = (case loaded1 of Inl err \<Rightarrow> d | Inr c1 \<Rightarrow> save cid c1 d);
          d2 = (case loaded2 of Inl err \<Rightarrow> d1 | Inr c2 \<Rightarrow> save cid c2 d1)
      in ((case loaded1 of Inl err \<Rightarrow> Inl err | Inr c1 \<Rightarrow> Inr ()),
          (case loaded2 of Inl err \<Rightarrow> Inl err | Inr c2 \<Rightarrow> Inr ()),
          d2))"

subsection \<open>rejectAdvertisement\<close>

text \<open>The first element that satisfies \<open>P\<close> is replaced by its image under \<open>f\<close>.\<close>

fun updateFirst :: "('a \<Rightarrow> bool) \<Rightarrow> ('a \<Rightarrow> 'a) \<Rightarrow> 'a list \<Rightarrow> 'a list" where
  "updateFirst P f [] = []"
| "updateFirst P f (x # xs) = (if P x then f x # xs else x # updateFirst P f xs)"

text \<open>
  \<^verbatim>\<open>rejectAdvertisement\<close>: the binding found by \<^verbatim>\<open>findIndex\<close> on the ad id is
  marked rejected, then the advertisement document. \<^verbatim>\<open>reason || '...'\<close> takes the
  default for a missing or empty reason; in the update of the advertisement
  document a missing reason is an undefined key, which leaves the stored
  reason as it is.
\<close>

definition rejectAdvertisement ::
  "nat \<Rightarrow> oid \<Rightarrow> oid \<Rightarrow> oid \<Rightarrow> string option \<Rightarrow> db \<Rightarrow> response \<times> db" where
  "rejectAdvertisement now reqUser cid ad reason d =
     (case challenges d cid of
        None \<Rightarrow> (Inl CHALLENGE_NOT_FOUND, d)
      | Some c \<Rightarrow>
          if \<not> isParticipant c reqUser then (Inl NOT_PARTICIPANT, d)
          else if \<not> list_ex (\<lambda>b. adId b = ad) (advertisements c) then (Inl AD_NOT_FOUND, d)
          else
            let d1 = save cid (c\<lparr>advertisements :=
                       updateFirst (\<lambda>b. adId b = ad)
                         (\<lambda>b. b\<lparr>adStatus := AdRejected, rejectedBy := Some reqUser,
                                rejectionReason := Some
                                  (case reason of None \<Rightarrow> ''Conflicts with principles''
                                   | Some r \<Rightarrow> if r = [] then ''Conflicts with principles'' else r)\<rparr>)
                         (advertisements c)\<rparr>) d
            in (Inr (),
                (case ads d1 ad of
                   None \<Rightarrow> d1
                 | Some adDoc \<Rightarrow> d1\<lparr>ads := (ads d1)(ad \<mapsto>
                     adDoc\<lparr>docStatus := ''rejected'', docRejectedBy := Some reqUser,
                           docRejectionReason :=
                             (case reason of None \<Rightarrow> docRejectionReason adDoc
                              | Some r \<Rightarrow> Some r),
                           rejectionDate := Some now\<rparr>)\<rparr>)))"

subsection \<open>submitRating\<close>

text \<open>The validators of \<^verbatim>\<open>ratingSchema\<close> on \<^verbatim>\<open>score\<close>: \<^verbatim>\<open>min: 1, max: 5\<close>.\<close>

definition validScore :: "rat \<Rightarrow> bool" where
  "validScore s = (1 \<le> s \<and> s \<le> 5)"

text \<open>The filter of \<^verbatim>\<open>Rating.findOne({challenge, rater, competitorRated})\<close>.\<close>

definition ratingOf :: "oid \<Rightarrow> oid \<Rightarrow> oid \<Rightarrow> rating_doc \<Rightarrow> bool" where
  "ratingOf cid u p r = (challenge r = cid \<and> rater r = u \<and> competitorRated r = p)"

text \<open>
  \<^verbatim>\<open>submitRating\<close>. \<^verbatim>\<open>challenge.opponent.toString()\<close> is evaluated only when
  the rated competitor is not the creator, and is a TypeError without
  opponent. An existing rating of the caller for the competitor is
  overwritten, otherwise a rating is created; both writes validate the score.
  Then the counters of the challenge are recomputed from the Rating
  collection. There is no test of the caller against the participants.
\<close>

definition submitRating :: "nat \<Rightarrow> oid \<Rightarrow> oid \<Rightarrow> oid \<Rightarrow> rat \<Rightarrow> db \<Rightarrow> response \<times> db" where
  "submitRating now reqUser cid competitor sc d =
     (case challenges d cid of
        None \<Rightarrow> (Inl CHALLENGE_NOT_FOUND, d)
      | Some c \<Rightarrow>
          if status c \<noteq> Live then (Inl NOT_LIVE, d)
          else if competitor \<noteq> creator c \<and> opponent c = None then (Inl TypeError, d)
          else if \<not> (competitor = creator c \<or> opponent c = Some competitor)
          then (Inl INVALID_COMPETITOR, d)
          else if \<not> validScore sc then (Inl ValidationError, d)
          else
            let d1 = (case List.find (ratingOf cid reqUser competitor) (ratings d) of
                        Some existingRating \<Rightarrow>
                          d\<lparr>ratings := updateFirst (ratingOf cid reqUser competitor)
                               (\<lambda>r. r\<lparr>score := sc, timestamp := now\<rparr>) (ratings d)\<rparr>
                      | None \<Rightarrow>
                          d\<lparr>ratings := ratings d @
                               [\<lparr>challenge = cid, rater = reqUser, competitorRated = competitor,
                                 score = sc, timestamp = now\<rparr>]\<rparr>);
                creatorRatings = findRatings d1 cid (Some (creator c));
                opponentRatings = findRatings d1 cid (opponent c)
            in (Inr (), save cid (c\<lparr>creatorRatingSum := scoreTotal creatorRatings,
                  creatorRatingCount := length creatorRatings,
                  opponentRatingSum := scoreTotal opponentRatings,
                  opponentRatingCount := length opponentRatings,
                  totalRatings := length creatorRatings + length opponentRatings\<rparr>) d1))"

section \<open>Socket layer\<close>

text \<open>
  \<^verbatim>\<open>io.sockets.adapter.rooms\<close> is a map from room names to sets of socket ids,
  kept in insertion order; a room exists while it has a member. An emitted
  event is the room (or socket) it goes to, the event name and the payload
  object, a list of fields.
\<close>

datatype json = JString string | JNumber nat | JDate nat | JUndefined
  | JObject "(string \<times> json) list"

type_synonym rooms = "(string \<times> string list) list"
type_synonym event = "string \<times> string \<times> (string \<times> json) list"

definition startsWith :: "string \<Rightarrow> string \<Rightarrow> bool" where
  "startsWith s p = (take (length p) s = p)"

text \<open>\<^verbatim>\<open>s.split(c)\<close> and the (possibly undefined) element at an index.\<close>

fun split :: "char \<Rightarrow> string \<Rightarrow> string list" where
  "split c [] = [[]]"
| "split c (x # xs) =
     (if x = c then [] # split c xs
      else (case split c xs of w # ws \<Rightarrow> (x # w) # ws | [] \<Rightarrow> [[x]]))"

definition element :: "string list \<Rightarrow> nat \<Rightarrow> json" where
  "element xs i = (if i < length xs then JString (xs ! i) else JUndefined)"

definition roomSize :: "rooms \<Rightarrow> string \<Rightarrow> nat" where
  "roomSize rs room = (case map_of rs room of None \<Rightarrow> 0 | Some sockets \<Rightarrow> length sockets)"

fun joinRoom :: "string \<Rightarrow> string \<Rightarrow> rooms \<Rightarrow> rooms" where
  "joinRoom sid room [] = [(room, [sid])]"
| "joinRoom sid room ((r, sockets) # rs) =
     (if r = room then (r, if sid \<in> set sockets then sockets else sockets @ [sid]) # rs
      else (r, sockets) # joinRoom sid room rs)"

fun leaveRoom :: "string \<Rightarrow> string \<Rightarrow> rooms \<Rightarrow> rooms" where
  "leaveRoom sid room [] = []"
| "leaveRoom sid room ((r, sockets) # rs) =
     (if r = room then
        (if removeAll sid sockets = [] then rs else (r, removeAll sid sockets) # rs)
      else (r, sockets) # leaveRoom sid room rs)"

text \<open>The \<^verbatim>\<open>join_challenge\<close> and \<^verbatim>\<open>leave_challenge\<close> handlers of a socket.\<close>

definition join_challenge :: "string \<Rightarrow> oid \<Rightarrow> string \<Rightarrow> oid \<Rightarrow> rooms \<Rightarrow> rooms \<times> event list" where
  "join_challenge sid userId username challengeId rs =
     (let room = ''challenge:'' @ challengeId;
          rs' = joinRoom sid room rs;
          viewerCount = roomSize rs' room
      in (rs',
          [(room, ''viewer_joined'',
              [(''viewerCount'', JNumber viewerCount),
               (''user'', JObject [(''id'', JString userId), (''username'', JString username)])]),
           (sid, ''challenge_data'',
              [(''challengeId'', JString challengeId), (''viewerCount'', JNumber viewerCount)])]))"

definition leave_challenge :: "string \<Rightarrow> oid \<Rightarrow> string \<Rightarrow> oid \<Rightarrow> rooms \<Rightarrow> rooms \<times> event list" where
  "leave_challenge sid userId username challengeId rs =
     (let room = ''challenge:'' @ challengeId;
          rs' = leaveRoom sid room rs;
          viewerCount = roomSize rs' room
      in (rs',
          [(room, ''viewer_left'',
              [(''viewerCount'', JNumber viewerCount),
               (''user'', JObject [(''id'', JString userId), (''username'', JString username)])])]))"

text \<open>
  The body of the \<^verbatim>\<open>setInterval(..., 5000)\<close> callback of \<^verbatim>\<open>initializeSocketIO\<close>:
  one \<^verbatim>\<open>viewer_count_update\<close> for every room whose name starts with
  \<^verbatim>\<open>challenge:\<close>.
\<close>

definition viewerCountTick :: "nat \<Rightarrow> rooms \<Rightarrow> event list" where
  "viewerCountTick now rs =
     map (\<lambda>(room, sockets).
            (room, ''viewer_count_update'',
               [(''challengeId'', element (split CHR '':'' room) 1),
                (''viewerCount'', JNumber (length sockets)),
                (''timestamp'', JDate now)]))
         (filter (\<lambda>(room, sockets). startsWith room ''challenge:'') rs)"

section \<open>Sequences of rating submissions\<close>

text \<open>
  A call of \<^verbatim>\<open>submitRating\<close> on one challenge is the time, the rater, the rated
  competitor and the score. A sequence of successful calls is a run of
  \<open>submitAll\<close> that returns a database.
\<close>

type_synonym rating_call = "nat \<times> oid \<times> oid \<times> rat"

fun submitAll :: "oid \<Rightarrow> rating_call list \<Rightarrow> db \<Rightarrow> db option" where
  "submitAll cid [] d = Some d"
| "submitAll cid ((now, u, p, s) # calls) d =
     (case submitRating now u cid p s d of
        (Inr ok, d') \<Rightarrow> submitAll cid calls d'
      | (Inl err, d') \<Rightarrow> None)"

text \<open>
  The specification's side of the aggregate: the raters that rated a
  participant in a sequence of calls, the latest score of a rater for a
  participant, and the sum of the latest scores over the distinct raters.
\<close>

definition callsFor :: "rating_call list \<Rightarrow> oid \<Rightarrow> oid \<Rightarrow> rating_call list" where
  "callsFor calls u p = filter (\<lambda>(now, u', p', s). u' = u \<and> p' = p) calls"

definition ratersOf :: "rating_call list \<Rightarrow> oid \<Rightarrow> oid set" where
  "ratersOf calls p = set (map (\<lambda>(now, u, p', s). u) (filter (\<lambda>(now, u, p', s). p' = p) calls))"

definition latestScore :: "rating_call list \<Rightarrow> oid \<Rightarrow> oid \<Rightarrow> rat" where
  "latestScore calls u p =
     (if callsFor calls u p = [] then 0 else snd (snd (snd (last (callsFor calls u p)))))"

definition latestSum :: "rating_call list \<Rightarrow> oid \<Rightarrow> rat" where
  "latestSum calls p = (\<Sum>u\<in>ratersOf calls p. latestScore calls u p)"

text \<open>No rating of the challenge is stored yet.\<close>

definition unrated :: "oid \<Rightarrow> db \<Rightarrow> bool" where
  "unrated cid d = (filter (\<lambda>r. challenge r = cid) (ratings d) = [])"

section \<open>Scenarios\<close>

text \<open>A challenge as \<^verbatim>\<open>challengeSchema\<close> creates it, with the schema's defaults.\<close>

definition newChallenge :: "oid \<Rightarrow> challenge_doc" where
  "newChallenge u =
     \<lparr>creator = u, opponent = None, status = Pending, startedAt = None, endedAt = None,
      creatorYoutubeUrl = None, opponentYoutubeUrl = None,
      creatorStreamKey = None, opponentStreamKey = None,
      creatorBroadcastId = None, opponentBroadcastId = None,
      advertisements = [], totalRevenue = 0,
      revenueDistribution = \<lparr>platform = 0, rd_creator = 0, rd_opponent = 0\<rparr>,
      viewerCount = 0, peakViewers = 0, totalRatings = 0,
      creatorRatingSum = 0, opponentRatingSum = 0,
      creatorRatingCount = 0, opponentRatingCount = 0\<rparr>"

definition binding :: "oid \<Rightarrow> ad_status \<Rightarrow> ad_binding" where
  "binding a st = \<lparr>adId = a, adStatus = st, rejectedBy = None, rejectionReason = None\<rparr>"

definition paidAd :: "rat \<Rightarrow> advertisement_doc" where
  "paidAd amt = \<lparr>paidAmount = amt, docStatus = ''assigned'', docRejectedBy = None,
     docRejectionReason = None, rejectionDate = None\<rparr>"

definition newRating :: "oid \<Rightarrow> oid \<Rightarrow> oid \<Rightarrow> rat \<Rightarrow> nat \<Rightarrow> rating_doc" where
  "newRating cid u p s t =
     \<lparr>challenge = cid, rater = u, competitorRated = p, score = s, timestamp = t\<rparr>"

definition linkedUser :: "string \<Rightarrow> user_doc" where
  "linkedUser name = \<lparr>role = ''user'', youtubeLinked = True,
     youtubeAccessToken = ''access-'' @ name, youtubeRefreshToken = ''refresh-'' @ name,
     totalEarnings = 0, totalChallenges = 0\<rparr>"

definition people :: "oid \<rightharpoonup> user_doc" where
  "people = [''alice'' \<mapsto> linkedUser ''alice'', ''bob'' \<mapsto> linkedUser ''bob'',
             ''carol'' \<mapsto> linkedUser ''carol'']"

text \<open>
  A decryption that succeeds; a provider that answers every call; a provider
  that refuses the credentials with one access token; a provider that fails
  one of the two calls.
\<close>

definition plainDecrypt :: decryptor where
  "plainDecrypt token = Some token"

definition answer :: "broadcast_call \<Rightarrow> credentials \<Rightarrow> broadcast" where
  "answer call client =
     (let bid = (case call of CreatorCall \<Rightarrow> ''b1-'' | OpponentCall \<Rightarrow> ''b2-'') @ fst client
      in \<lparr>broadcastId = bid, streamKey = ''k-'' @ bid, streamUrl = ''rtmp://ingest'',
          embedUrl = ''https://www.youtube.com/embed/'' @ bid,
          watchUrl = ''https://www.youtube.com/watch?v='' @ bid\<rparr>)"

definition providerUp :: provider where
  "providerUp call client = Some (answer call client)"

definition providerDownFor :: "string \<Rightarrow> provider" where
  "providerDownFor token call client =
     (if fst client = token then None else Some (answer call client))"

definition providerFailing :: "broadcast_call \<Rightarrow> provider" where
  "providerFailing failing call client =
     (if call = failing then None else Some (answer call client))"

text \<open>Alice against Bob, scheduled; and a challenge of Alice that nobody joined.\<close>

definition scheduledDuel :: challenge_doc where
  "scheduledDuel = (newChallenge ''alice'')\<lparr>opponent := Some ''bob'', status := Scheduled\<rparr>"

definition lobby :: db where
  "lobby =
     \<lparr>challenges = [''c1'' \<mapsto> scheduledDuel, ''c2'' \<mapsto> newChallenge ''alice''],
      ratings = [], ads = Map.empty, users = people, transactions = []\<rparr>"

text \<open>Alice against Bob, live, three displayed advertisements worth 100 together.\<close>

definition liveDuel :: challenge_doc where
  "liveDuel = (newChallenge ''alice'')\<lparr>opponent := Some ''bob'', status := Live,
     advertisements := [binding ''ad1'' AdDisplayed, binding ''ad2'' AdDisplayed,
                        binding ''ad3'' AdDisplayed]\<rparr>"

definition scenario100 :: db where
  "scenario100 =
     \<lparr>challenges = [''c1'' \<mapsto> liveDuel],
      ratings = [newRating ''c1'' ''carol'' ''alice'' 5 1, newRating ''c1'' ''dave'' ''alice'' 4 2,
                 newRating ''c1'' ''carol'' ''bob'' 3 3],
      ads = [''ad1'' \<mapsto> paidAd 50, ''ad2'' \<mapsto> paidAd 30, ''ad3'' \<mapsto> paidAd 20],
      users = people, transactions = []\<rparr>"

text \<open>Alice against Bob, live, one displayed advertisement worth 50, nobody rated.\<close>

definition scenario50 :: db where
  "scenario50 =
     \<lparr>challenges = [''c1'' \<mapsto> (newChallenge ''alice'')\<lparr>opponent := Some ''bob'', status := Live,
                        advertisements := [binding ''ad1'' AdDisplayed]\<rparr>],
      ratings = [],
      ads = [''ad1'' \<mapsto> paidAd 50],
      users = people, transactions = []\<rparr>"

text \<open>
  The same duel as the seed script stores a finished challenge: completed,
  ended at 900.
\<close>

definition archive :: db where
  "archive = scenario100\<lparr>challenges :=
     [''c1'' \<mapsto> liveDuel\<lparr>status := Completed, endedAt := Some 900\<rparr>]\<rparr>"

text \<open>
  Alice against Bob, live; the advertisement \<open>ad1\<close>, worth 50, was displayed
  twice and is bound twice, \<open>ad2\<close>, worth 30, is still pending.
\<close>

definition twiceBound :: db where
  "twiceBound =
     \<lparr>challenges = [''c1'' \<mapsto> (newChallenge ''alice'')\<lparr>opponent := Some ''bob'', status := Live,
                        advertisements := [binding ''ad1'' AdDisplayed, binding ''ad1'' AdDisplayed,
                                           binding ''ad2'' AdPending]\<rparr>],
      ratings = [],
      ads = [''ad1'' \<mapsto> paidAd 50, ''ad2'' \<mapsto> paidAd 30],
      users = people, transactions = []\<rparr>"

section \<open>The revenue distribution of the specification\<close>

text \<open>
  The specification's side of the claims on revenue, in the words of its
  section 4.3: the total revenue is the sum of the paid amounts over the
  bindings with status displayed; the platform takes 20 percent; the
  competitors' share is the rest; with a positive total score the creator's
  share is the competitors' share times the creator's sum over the total
  score and the opponent's share is the remainder, otherwise each gets half.
  A participant's sum is the sum of the scores stored for that participant.
\<close>

definition specTotalRevenue :: "(oid \<rightharpoonup> advertisement_doc) \<Rightarrow> ad_binding list \<Rightarrow> rat" where
  "specTotalRevenue coll bs =
     sum_list (map (\<lambda>b. case coll (adId b) of None \<Rightarrow> 0 | Some adDoc \<Rightarrow> paidAmount adDoc)
                   (filter (\<lambda>b. adStatus b = AdDisplayed) bs))"

definition specSum :: "rating_doc list \<Rightarrow> oid \<Rightarrow> oid \<Rightarrow> rat" where
  "specSum rs cid p =
     sum_list (map score (filter (\<lambda>r. challenge r = cid \<and> competitorRated r = p) rs))"

definition specShares :: "rat \<Rightarrow> rat \<Rightarrow> rat \<Rightarrow> revenue_distribution" where
  "specShares totalRev creatorSum opponentSum =
     (let platformShare = totalRev * (20 / 100);
          competitorsShare = totalRev - platformShare;
          totalScore = creatorSum + opponentSum;
          creatorShare = (if totalScore > 0 then competitorsShare * creatorSum / totalScore
                          else competitorsShare / 2);
          opponentShare = (if totalScore > 0 then competitorsShare - creatorShare
                           else competitorsShare / 2)
      in \<lparr>platform = platformShare, rd_creator = creatorShare, rd_opponent = opponentShare\<rparr>)"

section \<open>The documents that submitRating saves\<close>

text \<open>The Rating collection after the write, and the challenge with its recomputed counters.\<close>

definition writeRating ::
  "nat \<Rightarrow> oid \<Rightarrow> oid \<Rightarrow> oid \<Rightarrow> rat \<Rightarrow> rating_doc list \<Rightarrow> rating_doc list" where
  "writeRating now u cid p sc rs =
     (case List.find (ratingOf cid u p) rs of
        Some existingRating \<Rightarrow>
          updateFirst (ratingOf cid u p) (\<lambda>r. r\<lparr>score := sc, timestamp := now\<rparr>) rs
      | None \<Rightarrow> rs @ [\<lparr>challenge = cid, rater = u, competitorRated = p,
                       score = sc, timestamp = now\<rparr>])"

definition ratedChallenge :: "oid \<Rightarrow> db \<Rightarrow> challenge_doc \<Rightarrow> challenge_doc" where
  "ratedChallenge cid d1 c =
     c\<lparr>creatorRatingSum := scoreTotal (findRatings d1 cid (Some (creator c))),
       creatorRatingCount := length (findRatings d1 cid (Some (creator c))),
       opponentRatingSum := scoreTotal (findRatings d1 cid (opponent c)),
       opponentRatingCount := length (findRatings d1 cid (opponent c)),
       totalRatings := length (findRatings d1 cid (Some (creator c)))
                        + length (findRatings d1 cid (opponent c))\<rparr>"

section \<open>The lifecycle graph\<close>

text \<open>
  The edges that the controllers implement on purpose: a pending or scheduled
  challenge goes live or is cancelled, a live challenge is completed or
  cancelled. A step is forward when the status stays or follows an edge.
\<close>

definition edge :: "challenge_status \<Rightarrow> challenge_status \<Rightarrow> bool" where
  "edge s s' =
     (((s = Pending \<or> s = Scheduled) \<and> (s' = Live \<or> s' = Cancelled))
      \<or> (s = Live \<and> (s' = Completed \<or> s' = Cancelled)))"

definition forward :: "challenge_status \<Rightarrow> challenge_status \<Rightarrow> bool" where
  "forward s s' = (s' = s \<or> edge s s')"

text \<open>The status of a challenge in the database a controller leaves behind.\<close>

definition statusAfter :: "oid \<Rightarrow> response \<times> db \<Rightarrow> challenge_status option" where
  "statusAfter cid res = map_option status (challenges (snd res) cid)"

section \<open>Sequences of controller calls\<close>

text \<open>A call of one of the modelled controllers, with its arguments, and a sequence of calls.\<close>

datatype operation =
    StartChallenge decryptor provider nat oid oid
  | EndChallenge nat oid oid
  | CancelChallenge oid string oid
  | SubmitRating nat oid oid oid rat
  | RejectAdvertisement nat oid oid oid "string option"

fun perform :: "operation \<Rightarrow> db \<Rightarrow> response \<times> db" where
  "perform (StartChallenge decrypt createLiveBroadcast now reqUser cid) d =
     startChallenge decrypt createLiveBroadcast now reqUser cid d"
| "perform (EndChallenge now reqUser cid) d = endChallenge now reqUser cid d"
| "perform (CancelChallenge reqUser reqRole cid) d = cancelChallenge reqUser reqRole cid d"
| "perform (SubmitRating now reqUser cid competitor sc) d =
     submitRating now reqUser cid competitor sc d"
| "perform (RejectAdvertisement now reqUser cid ad reason) d =
     rejectAdvertisement now reqUser cid ad reason d"

fun performAll :: "operation list \<Rightarrow> db \<Rightarrow> db" where
  "performAll [] d = d"
| "performAll (x # xs) d = performAll xs (snd (perform x d))"

section \<open>The invariant of the rating store\<close>

text \<open>The stored scores of a rater for a participant are the latest one, if any.\<close>

definition storeAgrees :: "oid \<Rightarrow> rating_call list \<Rightarrow> db \<Rightarrow> bool" where
  "storeAgrees cid calls d =
     (\<forall>u p. map score (filter (ratingOf cid u p) (ratings d))
              = (if callsFor calls u p = [] then [] else [latestScore calls u p]))"

text \<open>Three ratings on the unrated duel of \<open>scenario50\<close>.\<close>

definition ratingRun :: "rating_call list" where
  "ratingRun = [(1, ''carol'', ''alice'', 3), (2, ''dave'', ''alice'', 4), (3, ''carol'', ''bob'', 2)]"

definition ratedThrice :: db where
  "ratedThrice =
     performAll [SubmitRating 1 ''carol'' ''c1'' ''alice'' 3, SubmitRating 2 ''dave'' ''c1'' ''alice'' 4,
                 SubmitRating 3 ''carol'' ''c1'' ''bob'' 2] scenario50"

section \<open>Basic facts about the store\<close>

lemma foldl_add_acc:
  "foldl (\<lambda>s x. s + f x) (a::rat) xs = a + sum_list (map f xs)"
  by (induction xs arbitrary: a) (simp_all add: add.assoc)

lemma scoreTotal_sum_list: "scoreTotal rs = sum_list (map score rs)"
  by (simp add: scoreTotal_def foldl_add_acc)

lemma challenges_save [simp]: "challenges (save cid c d) = (challenges d)(cid \<mapsto> c)"
  by (simp add: save_def)

lemma ratings_save [simp]: "ratings (save cid c d) = ratings d"
  by (simp add: save_def)

lemma ads_save [simp]: "ads (save cid c d) = ads d"
  by (simp add: save_def)

section \<open>Revenue distribution\<close>

text \<open>
  The shares of the specification add up to the total revenue, and with a
  zero total score the two competitors get the same.
\<close>

lemma specShares_total:
  "rd_creator (specShares t a b) + rd_opponent (specShares t a b) + platform (specShares t a b) = t"
  by (simp add: specShares_def Let_def)

lemma specShares_no_score:
  "a + b = 0 \<Longrightarrow> rd_creator (specShares t a b) = rd_opponent (specShares t a b)"
  by (simp add: specShares_def Let_def)

text \<open>
  Claim C1 against the code. The live duel has three displayed
  advertisements worth 100 together and rating sums 9 and 3, for which the
  claim gives the shares 20, 60 and 20. Alice, its creator, ends it:
  \<^verbatim>\<open>endChallenge\<close> does not run, the challenge stays live and its stored
  shares stay 0, 0 and 0.
\<close>

theorem endChallenge_stores_no_shares:
  "challenges scenario100 ''c1'' = Some liveDuel
   \<and> status liveDuel = Live \<and> isParticipant liveDuel ''alice''
   \<and> specTotalRevenue (ads scenario100) (advertisements liveDuel) = 100
   \<and> specSum (ratings scenario100) ''c1'' ''alice'' = 9
   \<and> specSum (ratings scenario100) ''c1'' ''bob'' = 3
   \<and> specShares 100 9 3 = \<lparr>platform = 20, rd_creator = 60, rd_opponent = 20\<rparr>
   \<and> endChallenge 1000 ''alice'' ''c1'' scenario100 = (Inl SyntaxError, scenario100)
   \<and> map_option revenueDistribution
        (challenges (snd (endChallenge 1000 ''alice'' ''c1'' scenario100)) ''c1'')
      = Some \<lparr>platform = 0, rd_creator = 0, rd_opponent = 0\<rparr>
   \<and> statusAfter ''c1'' (endChallenge 1000 ''alice'' ''c1'' scenario100) = Some Live"
  by (simp add: scenario100_def liveDuel_def newChallenge_def binding_def paidAd_def
      newRating_def isParticipant_def specTotalRevenue_def specSum_def specShares_def
      endChallenge_def statusAfter_def Let_def)

text \<open>
  Claim C7 against the code. The live duel of \<open>scenario50\<close> has one displayed
  advertisement worth 50 and no rating, for which the claim gives 10 to the
  platform and 20 to each competitor. Bob, its opponent, ends it:
  \<^verbatim>\<open>endChallenge\<close> does not run and nothing is stored.
\<close>

theorem endChallenge_stores_no_equal_split:
  "map_option (\<lambda>c. (status c, creator c, opponent c)) (challenges scenario50 ''c1'')
      = Some (Live, ''alice'', Some ''bob'')
   \<and> specTotalRevenue (ads scenario50)
        (case challenges scenario50 ''c1'' of None \<Rightarrow> [] | Some c \<Rightarrow> advertisements c) = 50
   \<and> specSum (ratings scenario50) ''c1'' ''alice'' + specSum (ratings scenario50) ''c1'' ''bob'' = 0
   \<and> specShares 50 0 0 = \<lparr>platform = 10, rd_creator = 20, rd_opponent = 20\<rparr>
   \<and> endChallenge 1000 ''bob'' ''c1'' scenario50 = (Inl SyntaxError, scenario50)
   \<and> map_option revenueDistribution
        (challenges (snd (endChallenge 1000 ''bob'' ''c1'' scenario50)) ''c1'')
      = Some \<lparr>platform = 0, rd_creator = 0, rd_opponent = 0\<rparr>"
  by (simp add: scenario50_def newChallenge_def binding_def paidAd_def
      specTotalRevenue_def specSum_def specShares_def endChallenge_def Let_def)

text \<open>
  Claim C3 against the code. In \<open>twiceBound\<close> the two displayed bindings of
  \<open>ad1\<close> are worth 100 together and the pending binding of \<open>ad2\<close> counts
  nothing. Alice ends the challenge: \<^verbatim>\<open>endChallenge\<close> does not run and the
  stored total revenue stays 0, so the displayed bindings have contributed
  nothing. And when Alice rejects \<open>ad1\<close>, only the first of its bindings is
  marked: the second stays displayed, worth 50.
\<close>

theorem endChallenge_counts_no_displayed_ad:
  "map_option (\<lambda>c. (status c, creator c, map adStatus (advertisements c)))
        (challenges twiceBound ''c1'')
      = Some (Live, ''alice'', [AdDisplayed, AdDisplayed, AdPending])
   \<and> specTotalRevenue (ads twiceBound)
        (case challenges twiceBound ''c1'' of None \<Rightarrow> [] | Some c \<Rightarrow> advertisements c) = 100
   \<and> endChallenge 1000 ''alice'' ''c1'' twiceBound = (Inl SyntaxError, twiceBound)
   \<and> map_option totalRevenue (challenges (snd (endChallenge 1000 ''alice'' ''c1'' twiceBound)) ''c1'')
      = Some 0
   \<and> fst (rejectAdvertisement 5 ''alice'' ''c1'' ''ad1'' None twiceBound) = Inr ()
   \<and> map_option (\<lambda>c. map (\<lambda>b. (adId b, adStatus b)) (advertisements c))
        (challenges (snd (rejectAdvertisement 5 ''alice'' ''c1'' ''ad1'' None twiceBound)) ''c1'')
      = Some [(''ad1'', AdRejected), (''ad1'', AdDisplayed), (''ad2'', AdPending)]
   \<and> specTotalRevenue (ads (snd (rejectAdvertisement 5 ''alice'' ''c1'' ''ad1'' None twiceBound)))
        (case challenges (snd (rejectAdvertisement 5 ''alice'' ''c1'' ''ad1'' None twiceBound)) ''c1''
         of None \<Rightarrow> [] | Some c \<Rightarrow> advertisements c) = 50"
  by (simp add: twiceBound_def newChallenge_def binding_def paidAd_def isParticipant_def
      specTotalRevenue_def endChallenge_def rejectAdvertisement_def save_def Let_def)

section \<open>Rating submissions\<close>

lemma findRatings_ratings_cong:
  "ratings d1 = ratings d2 \<Longrightarrow> findRatings d1 cid who = findRatings d2 cid who"
  by (simp add: findRatings_def split: option.splits)

lemma submitRating_Inr:
  assumes "submitRating now u cid p sc d = (Inr (), d')"
  shows "\<exists>c. challenges d cid = Some c \<and> status c = Live
           \<and> (p = creator c \<or> opponent c = Some p) \<and> validScore sc
           \<and> ratings d' = writeRating now u cid p sc (ratings d)
           \<and> challenges d' = (challenges d)(cid \<mapsto> ratedChallenge cid d' c)
           \<and> ads d' = ads d \<and> users d' = users d \<and> transactions d' = transactions d"
proof -
  from assms obtain c where c: "challenges d cid = Some c"
    by (auto simp: submitRating_def split: option.splits)
  let ?d1 = "d\<lparr>ratings := writeRating now u cid p sc (ratings d)\<rparr>"
  have guards: "status c = Live" "p = creator c \<or> opponent c = Some p" "validScore sc"
    using assms c by (auto simp: submitRating_def split: if_splits)
  have d': "d' = save cid (ratedChallenge cid ?d1 c) ?d1"
    using assms c guards
    by (auto simp: submitRating_def writeRating_def ratedChallenge_def Let_def
             split: if_splits option.splits)
  have r: "ratings d' = ratings ?d1" by (simp add: d')
  have "ratedChallenge cid d' c = ratedChallenge cid ?d1 c"
    unfolding ratedChallenge_def findRatings_ratings_cong [OF r] ..
  then show ?thesis using c guards by (simp add: d' save_def)
qed

text \<open>
  Claim C10. After a successful \<^verbatim>\<open>submitRating\<close> the challenge's
  \<^verbatim>\<open>totalRatings\<close> is the sum of the two rating counts, and each count is the
  number of records of the Rating collection, as the call leaves it, that
  belong to the challenge and rate that participant (none for the opponent
  of a challenge without opponent).
\<close>

theorem submitRating_counters_match_records:
  assumes "submitRating now u cid p sc d = (Inr (), d')"
      and "challenges d' cid = Some c'"
  shows "totalRatings c' = creatorRatingCount c' + opponentRatingCount c'
       \<and> creatorRatingCount c'
           = length (filter (\<lambda>r. challenge r = cid \<and> competitorRated r = creator c') (ratings d'))
       \<and> (\<forall>opp. opponent c' = Some opp \<longrightarrow>
            opponentRatingCount c'
              = length (filter (\<lambda>r. challenge r = cid \<and> competitorRated r = opp) (ratings d')))
       \<and> (opponent c' = None \<longrightarrow> opponentRatingCount c' = 0)"
proof -
  from submitRating_Inr [OF assms(1)] assms(2)
  obtain c where "c' = ratedChallenge cid d' c" by auto
  then show ?thesis by (simp add: ratedChallenge_def findRatings_def)
qed

lemma scenario100_submit:
  "submitRating 10 ''erin'' ''c1'' ''bob'' 4 scenario100
     = (Inr (), snd (submitRating 10 ''erin'' ''c1'' ''bob'' 4 scenario100))"
  by (simp add: submitRating_def scenario100_def liveDuel_def newChallenge_def validScore_def
      Let_def split: option.splits)

lemma scenario100_submit_ratings:
  "ratings (snd (submitRating 10 ''erin'' ''c1'' ''bob'' 4 scenario100))
     = [newRating ''c1'' ''carol'' ''alice'' 5 1, newRating ''c1'' ''dave'' ''alice'' 4 2,
        newRating ''c1'' ''carol'' ''bob'' 3 3, newRating ''c1'' ''erin'' ''bob'' 4 10]"
  by (simp add: submitRating_def scenario100_def liveDuel_def newChallenge_def newRating_def
      validScore_def ratingOf_def Let_def)

theorem submitRating_counters_match_records_witness:
  "fst (submitRating 10 ''erin'' ''c1'' ''bob'' 4 scenario100) = Inr ()
   \<and> length (ratings (snd (submitRating 10 ''erin'' ''c1'' ''bob'' 4 scenario100))) = 4
   \<and> (\<exists>c'. challenges (snd (submitRating 10 ''erin'' ''c1'' ''bob'' 4 scenario100)) ''c1'' = Some c'
        \<and> creatorRatingCount c' = 2 \<and> opponentRatingCount c' = 2 \<and> totalRatings c' = 4)"
proof -
  let ?d' = "snd (submitRating 10 ''erin'' ''c1'' ''bob'' 4 scenario100)"
  from submitRating_Inr [OF scenario100_submit]
  obtain c' where c': "challenges ?d' ''c1'' = Some c'"
    and who: "creator c' = ''alice''" "opponent c' = Some ''bob''"
    by (auto simp: ratedChallenge_def scenario100_def liveDuel_def newChallenge_def)
  from submitRating_counters_match_records [OF scenario100_submit c'] who
  have "creatorRatingCount c' = 2" "opponentRatingCount c' = 2" "totalRatings c' = 4"
    by (simp_all add: scenario100_submit_ratings newRating_def)
  then show ?thesis
    using c' scenario100_submit [THEN arg_cong, of fst]
    by (simp add: scenario100_submit_ratings)
qed

section \<open>Starting a challenge\<close>

lemma startChallenge_failure_keeps_db:
  "fst (startChallenge decrypt clb now u cid d) \<noteq> Inr () \<Longrightarrow>
     snd (startChallenge decrypt clb now u cid d) = d"
  by (auto simp: startChallenge_def split: sum.splits)

lemma createBroadcasts_fails:
  assumes "decrypt (youtubeAccessToken oppDoc) = Some oa"
      and "decrypt (youtubeRefreshToken oppDoc) = Some orr"
      and "clb CreatorCall (oa, orr) = None \<or> clb OpponentCall (oa, orr) = None"
  shows "createBroadcasts decrypt clb creatorDoc oppDoc = None"
  using assms
  by (auto simp: createBroadcasts_def getYouTubeService_def Let_def split: option.splits)

text \<open>
  Claim C6. When the provider fails one of the two broadcast calls of
  \<^verbatim>\<open>startChallenge\<close>, the creator's or the opponent's (both are made under the
  credentials the shared client holds, the opponent's), the call does not
  succeed and leaves the database, and with it the challenge document
  (status, stream URLs, stream keys, broadcast ids, \<^verbatim>\<open>startedAt\<close>), exactly
  as it was; when the handler reaches the provider (a participant calls, the
  challenge is pending or scheduled, both accounts are linked) the response
  is \<^verbatim>\<open>YOUTUBE_API_ERROR\<close>, the controller's dependency error.
\<close>

theorem startChallenge_provider_failure_no_commit:
  assumes "challenges d cid = Some c"
      and "users d (creator c) = Some creatorDoc"
      and "opponent c = Some opp"
      and "users d opp = Some oppDoc"
      and "decrypt (youtubeAccessToken oppDoc) = Some oa"
      and "decrypt (youtubeRefreshToken oppDoc) = Some orr"
      and "clb CreatorCall (oa, orr) = None \<or> clb OpponentCall (oa, orr) = None"
  shows "snd (startChallenge decrypt clb now u cid d) = d
       \<and> challenges (snd (startChallenge decrypt clb now u cid d)) cid = Some c
       \<and> fst (startChallenge decrypt clb now u cid d) \<noteq> Inr ()
       \<and> ((u = creator c \<or> u = opp) \<and> (status c = Pending \<or> status c = Scheduled)
            \<and> youtubeLinked creatorDoc \<and> youtubeLinked oppDoc \<longrightarrow>
          startChallenge decrypt clb now u cid d = (Inl YOUTUBE_API_ERROR, d))"
proof -
  have none: "createBroadcasts decrypt clb creatorDoc oppDoc = None"
    using assms(5,6,7) by (rule createBroadcasts_fails)
  have fails: "fst (startChallenge decrypt clb now u cid d) \<noteq> Inr ()"
    using assms(1-4) none
    by (auto simp: startChallenge_def startRequest_def Let_def split: sum.splits if_splits)
  have same: "snd (startChallenge decrypt clb now u cid d) = d"
    using fails by (rule startChallenge_failure_keeps_db)
  have code: "(u = creator c \<or> u = opp) \<and> (status c = Pending \<or> status c = Scheduled)
            \<and> youtubeLinked creatorDoc \<and> youtubeLinked oppDoc \<longrightarrow>
          startChallenge decrypt clb now u cid d = (Inl YOUTUBE_API_ERROR, d)"
    using assms(1-4) none
    by (auto simp: startChallenge_def startRequest_def Let_def)
  show ?thesis using fails same code assms(1) by simp
qed

theorem startChallenge_provider_failure_no_commit_witness:
  "providerFailing CreatorCall CreatorCall (''access-bob'', ''refresh-bob'') = None
   \<and> startChallenge plainDecrypt (providerFailing CreatorCall) 7 ''alice'' ''c1'' lobby
       = (Inl YOUTUBE_API_ERROR, lobby)
   \<and> challenges (snd (startChallenge plainDecrypt (providerFailing CreatorCall) 7 ''alice'' ''c1'' lobby)) ''c1''
       = Some scheduledDuel"
proof -
  have c: "challenges lobby ''c1'' = Some scheduledDuel" by (simp add: lobby_def)
  have cu: "users lobby (creator scheduledDuel) = Some (linkedUser ''alice'')"
    by (simp add: lobby_def scheduledDuel_def newChallenge_def people_def)
  have op: "opponent scheduledDuel = Some ''bob''"
    by (simp add: scheduledDuel_def newChallenge_def)
  have ou: "users lobby ''bob'' = Some (linkedUser ''bob'')"
    by (simp add: lobby_def people_def)
  have oa: "plainDecrypt (youtubeAccessToken (linkedUser ''bob'')) = Some ''access-bob''"
    and orr: "plainDecrypt (youtubeRefreshToken (linkedUser ''bob'')) = Some ''refresh-bob''"
    by (simp_all add: plainDecrypt_def linkedUser_def)
  have down: "providerFailing CreatorCall CreatorCall (''access-bob'', ''refresh-bob'') = None"
    by (simp add: providerFailing_def)
  have guards: "(''alice'' = creator scheduledDuel \<or> ''alice'' = ''bob'')
      \<and> (status scheduledDuel = Pending \<or> status scheduledDuel = Scheduled)
      \<and> youtubeLinked (linkedUser ''alice'') \<and> youtubeLinked (linkedUser ''bob'')"
    by (simp add: scheduledDuel_def newChallenge_def linkedUser_def)
  have either: "providerFailing CreatorCall CreatorCall (''access-bob'', ''refresh-bob'') = None
      \<or> providerFailing CreatorCall OpponentCall (''access-bob'', ''refresh-bob'') = None"
    using down by simp
  from startChallenge_provider_failure_no_commit [where decrypt = plainDecrypt
      and clb = "providerFailing CreatorCall" and now = 7 and u = "''alice''",
      OF c cu op ou oa orr either] guards
  have run: "startChallenge plainDecrypt (providerFailing CreatorCall) 7 ''alice'' ''c1'' lobby
       = (Inl YOUTUBE_API_ERROR, lobby)"
    by blast
  show ?thesis using down c by (simp add: run)
qed

text \<open>
  The shared client at work: a provider that refuses the creator's
  credentials is never shown them. Both broadcasts are made under Bob's
  credentials, the start succeeds and Alice's stored broadcast is one made
  for Bob's account.
\<close>

lemma startChallenge_shared_client:
  "fst (startChallenge plainDecrypt (providerDownFor ''access-alice'') 7 ''alice'' ''c1'' lobby) = Inr ()
   \<and> map_option (\<lambda>c. (status c, creatorBroadcastId c, opponentBroadcastId c))
        (challenges (snd (startChallenge plainDecrypt (providerDownFor ''access-alice'') 7
                            ''alice'' ''c1'' lobby)) ''c1'')
      = Some (Live, Some ''b1-access-bob'', Some ''b2-access-bob'')"
  by (simp add: startChallenge_def startRequest_def createBroadcasts_def getYouTubeService_def
      lobby_def scheduledDuel_def newChallenge_def people_def linkedUser_def plainDecrypt_def
      providerDownFor_def answer_def save_def Let_def)

section \<open>Guards of startChallenge\<close>

lemma startRequest_Inr:
  assumes "startRequest decrypt clb now u cid d = Inr c'"
  shows "\<exists>c opp creatorDoc oppDoc. challenges d cid = Some c \<and> opponent c = Some opp
           \<and> users d (creator c) = Some creatorDoc \<and> users d opp = Some oppDoc
           \<and> (u = creator c \<or> u = opp)
           \<and> status c \<noteq> Live \<and> status c \<noteq> Completed
           \<and> youtubeLinked creatorDoc \<and> youtubeLinked oppDoc
           \<and> createBroadcasts decrypt clb creatorDoc oppDoc \<noteq> None
           \<and> status c' = Live
           \<and> creator c' = creator c \<and> opponent c' = opponent c
           \<and> advertisements c' = advertisements c"
  using assms
  by (auto simp: startRequest_def Let_def split: option.splits if_splits prod.splits)

lemma startChallenge_Inr:
  assumes "startChallenge decrypt clb now u cid d = (Inr (), d')"
  shows "\<exists>c'. startRequest decrypt clb now u cid d = Inr c' \<and> d' = save cid c' d"
  using assms by (auto simp: startChallenge_def split: sum.splits)

lemma startRequest_accepts:
  assumes "challenges d cid = Some c" and "opponent c = Some opp"
      and "users d (creator c) = Some creatorDoc" and "users d opp = Some oppDoc"
      and "u = creator c \<or> u = opp"
      and "status c \<noteq> Live" and "status c \<noteq> Completed"
      and "youtubeLinked creatorDoc" and "youtubeLinked oppDoc"
      and "createBroadcasts decrypt clb creatorDoc oppDoc \<noteq> None"
  shows "\<exists>c'. startRequest decrypt clb now u cid d = Inr c' \<and> status c' = Live"
  using assms
  by (auto simp: startRequest_def Let_def split: option.splits prod.splits)

lemma startChallenge_on_live:
  assumes "challenges d cid = Some c" and "status c = Live"
      and "opponent c = Some opp" and "users d (creator c) \<noteq> None" and "users d opp \<noteq> None"
  shows "startChallenge decrypt clb now u cid d
           = (if u = creator c \<or> u = opp then (Inl ALREADY_LIVE, d) else (Inl NOT_PARTICIPANT, d))"
  using assms
  by (auto simp: startChallenge_def startRequest_def Let_def split: option.splits)

lemma simultaneousStarts_both:
  assumes "startRequest decrypt clb now u cid d = Inr c1"
      and "startRequest decrypt' clb' now' u' cid d = Inr c2"
  shows "simultaneousStarts (startRequest decrypt clb now u) (startRequest decrypt' clb' now' u') cid d
           = (Inr (), Inr (), save cid c2 (save cid c1 d))"
  using assms by (simp add: simultaneousStarts_def Let_def)

text \<open>
  Claim C4, as amended. \<^verbatim>\<open>startChallenge\<close> tests the caller before the state
  of the challenge, so its guards are those of a caller who is a
  participant: for the creator of a challenge without opponent it fails with
  \<^verbatim>\<open>NO_OPPONENT\<close>, for a participant of a live challenge with \<^verbatim>\<open>ALREADY_LIVE\<close>,
  and each failure leaves the database as it was. A start that runs on the
  database as a successful start left it fails. The handler takes no lock:
  two starts of which each succeeds when it is handled alone both succeed
  when they are handled at the same time, each loading the challenge before
  the other has saved it, and the challenge is live after both.
\<close>

theorem startChallenge_guards:
  assumes "challenges d cid = Some c"
      and "users d (creator c) \<noteq> None"
  shows "(opponent c = None \<and> u = creator c \<longrightarrow>
            startChallenge decrypt clb now u cid d = (Inl NO_OPPONENT, d))
       \<and> (status c = Live \<and> opponent c = Some opp \<and> users d opp \<noteq> None
            \<and> (u = creator c \<or> u = opp) \<longrightarrow>
            startChallenge decrypt clb now u cid d = (Inl ALREADY_LIVE, d))
       \<and> (\<forall>d1. startChallenge decrypt clb now u cid d = (Inr (), d1) \<longrightarrow>
            startChallenge decrypt' clb' now' u' cid d1 = (Inl ALREADY_LIVE, d1)
            \<or> startChallenge decrypt' clb' now' u' cid d1 = (Inl NOT_PARTICIPANT, d1))
       \<and> (\<forall>d1 d2. startChallenge decrypt clb now u cid d = (Inr (), d1)
              \<and> startChallenge decrypt' clb' now' u' cid d = (Inr (), d2) \<longrightarrow>
            (\<exists>d'. simultaneousStarts (startRequest decrypt clb now u)
                     (startRequest decrypt' clb' now' u') cid d = (Inr (), Inr (), d')
                  \<and> map_option status (challenges d' cid) = Some Live))"
proof -
  have noOpp: "opponent c = None \<and> u = creator c \<longrightarrow>
            startChallenge decrypt clb now u cid d = (Inl NO_OPPONENT, d)"
    using assms
    by (auto simp: startChallenge_def startRequest_def Let_def split: option.splits)
  have live: "status c = Live \<and> opponent c = Some opp \<and> users d opp \<noteq> None
            \<and> (u = creator c \<or> u = opp) \<longrightarrow>
            startChallenge decrypt clb now u cid d = (Inl ALREADY_LIVE, d)"
    using assms by (auto simp: startChallenge_on_live)
  have again: "startChallenge decrypt' clb' now' u' cid d1 = (Inl ALREADY_LIVE, d1)
            \<or> startChallenge decrypt' clb' now' u' cid d1 = (Inl NOT_PARTICIPANT, d1)"
    if run: "startChallenge decrypt clb now u cid d = (Inr (), d1)" for d1
  proof -
    from startChallenge_Inr [OF run] obtain c1 where
      req: "startRequest decrypt clb now u cid d = Inr c1" and d1: "d1 = save cid c1 d"
      by blast
    from startRequest_Inr [OF req] show ?thesis
    proof (elim exE conjE)
      fix c0 opp0 creatorDoc oppDoc
      assume c0: "opponent c0 = Some opp0" "users d (creator c0) = Some creatorDoc"
          "users d opp0 = Some oppDoc"
        and c1: "status c1 = Live" "creator c1 = creator c0" "opponent c1 = opponent c0"
      have "challenges d1 cid = Some c1" "opponent c1 = Some opp0"
        "users d1 (creator c1) \<noteq> None" "users d1 opp0 \<noteq> None"
        using c0 c1 by (simp_all add: d1 save_def)
      from startChallenge_on_live [OF this(1) c1(1) this(2,3,4), of decrypt' clb' now' u']
      show ?thesis by (simp split: if_splits)
    qed
  qed
  have together: "\<exists>d'. simultaneousStarts (startRequest decrypt clb now u)
                     (startRequest decrypt' clb' now' u') cid d = (Inr (), Inr (), d')
                  \<and> map_option status (challenges d' cid) = Some Live"
    if run1: "startChallenge decrypt clb now u cid d = (Inr (), d1)"
      and run2: "startChallenge decrypt' clb' now' u' cid d = (Inr (), d2)" for d1 d2
  proof -
    from startChallenge_Inr [OF run1] obtain c1 where
      req1: "startRequest decrypt clb now u cid d = Inr c1" by blast
    from startChallenge_Inr [OF run2] obtain c2 where
      req2: "startRequest decrypt' clb' now' u' cid d = Inr c2" by blast
    have "status c2 = Live" using startRequest_Inr [OF req2] by blast
    then have "map_option status (challenges (save cid c2 (save cid c1 d)) cid) = Some Live"
      by simp
    with simultaneousStarts_both [OF req1 req2] show ?thesis by blast
  qed
  show ?thesis using noOpp live again together by blast
qed

text \<open>
  Claim C4 as stated fails in three places. Mallory, who is no participant,
  starts Alice's challenge without opponent and is answered
  \<^verbatim>\<open>NOT_PARTICIPANT\<close>, not \<^verbatim>\<open>NO_OPPONENT\<close>. Alice and Bob start their
  scheduled duel at the same time and both starts succeed. Bob ends the
  scheduled duel, which is not live, and the answer is not \<^verbatim>\<open>NOT_LIVE\<close>:
  \<^verbatim>\<open>endChallenge\<close> does not run.
\<close>

theorem startChallenge_guards_counterexample:
  "challenges lobby ''c2'' = Some (newChallenge ''alice'')
   \<and> opponent (newChallenge ''alice'') = None
   \<and> startChallenge plainDecrypt providerUp 7 ''mallory'' ''c2'' lobby = (Inl NOT_PARTICIPANT, lobby)
   \<and> fst (simultaneousStarts (startRequest plainDecrypt providerUp 7 ''alice'')
             (startRequest plainDecrypt providerUp 8 ''bob'') ''c1'' lobby) = Inr ()
   \<and> fst (snd (simultaneousStarts (startRequest plainDecrypt providerUp 7 ''alice'')
             (startRequest plainDecrypt providerUp 8 ''bob'') ''c1'' lobby)) = Inr ()
   \<and> challenges lobby ''c1'' = Some scheduledDuel
   \<and> status scheduledDuel = Scheduled \<and> isParticipant scheduledDuel ''bob''
   \<and> endChallenge 9 ''bob'' ''c1'' lobby = (Inl SyntaxError, lobby)"
  by (simp add: startChallenge_def startRequest_def simultaneousStarts_def createBroadcasts_def
      getYouTubeService_def endChallenge_def isParticipant_def lobby_def scheduledDuel_def
      newChallenge_def people_def linkedUser_def plainDecrypt_def providerUp_def Let_def)

lemma lobby_start:
  "startChallenge plainDecrypt providerUp now u ''c1'' lobby
     = (if u = ''alice'' \<or> u = ''bob''
        then (Inr (), snd (startChallenge plainDecrypt providerUp now u ''c1'' lobby))
        else (Inl NOT_PARTICIPANT, lobby))"
  by (simp add: startChallenge_def startRequest_def createBroadcasts_def getYouTubeService_def
      lobby_def scheduledDuel_def newChallenge_def people_def linkedUser_def plainDecrypt_def
      providerUp_def Let_def)

theorem startChallenge_guards_witness:
  "startChallenge plainDecrypt providerUp 7 ''alice'' ''c2'' lobby = (Inl NO_OPPONENT, lobby)
   \<and> startChallenge plainDecrypt providerUp 7 ''bob'' ''c1'' scenario100
        = (Inl ALREADY_LIVE, scenario100)
   \<and> fst (startChallenge plainDecrypt providerUp 7 ''alice'' ''c1'' lobby) = Inr ()
   \<and> fst (startChallenge plainDecrypt providerUp 8 ''bob'' ''c1'' lobby) = Inr ()
   \<and> fst (startChallenge plainDecrypt providerUp 8 ''bob'' ''c1''
             (snd (startChallenge plainDecrypt providerUp 7 ''alice'' ''c1'' lobby))) \<noteq> Inr ()
   \<and> (\<exists>d'. simultaneousStarts (startRequest plainDecrypt providerUp 7 ''alice'')
              (startRequest plainDecrypt providerUp 8 ''bob'') ''c1'' lobby = (Inr (), Inr (), d')
           \<and> map_option status (challenges d' ''c1'') = Some Live)"
proof -
  have c2: "challenges lobby ''c2'' = Some (newChallenge ''alice'')"
    and c1: "challenges lobby ''c1'' = Some scheduledDuel"
    and c100: "challenges scenario100 ''c1'' = Some liveDuel"
    by (simp_all add: lobby_def scenario100_def)
  have u2: "users lobby (creator (newChallenge ''alice'')) \<noteq> None"
    and u1: "users lobby (creator scheduledDuel) \<noteq> None"
    and u100: "users scenario100 (creator liveDuel) \<noteq> None"
    by (simp_all add: lobby_def scenario100_def scheduledDuel_def liveDuel_def
        newChallenge_def people_def)
  have solo: "opponent (newChallenge ''alice'') = None \<and> ''alice'' = creator (newChallenge ''alice'')"
    by (simp add: newChallenge_def)
  have live: "status liveDuel = Live \<and> opponent liveDuel = Some ''bob''
      \<and> users scenario100 ''bob'' \<noteq> None \<and> (''bob'' = creator liveDuel \<or> ''bob'' = ''bob'')"
    by (simp add: liveDuel_def newChallenge_def scenario100_def people_def)
  have alice: "startChallenge plainDecrypt providerUp 7 ''alice'' ''c1'' lobby
      = (Inr (), snd (startChallenge plainDecrypt providerUp 7 ''alice'' ''c1'' lobby))"
    and bob: "startChallenge plainDecrypt providerUp 8 ''bob'' ''c1'' lobby
      = (Inr (), snd (startChallenge plainDecrypt providerUp 8 ''bob'' ''c1'' lobby))"
    using lobby_start [of 7 "''alice''"] lobby_start [of 8 "''bob''"] by simp_all
  note A = startChallenge_guards [OF c2 u2, where u = "''alice''" and decrypt = plainDecrypt
      and clb = providerUp and now = 7]
  note B = startChallenge_guards [OF c100 u100, where u = "''bob''" and decrypt = plainDecrypt
      and clb = providerUp and now = 7 and opp = "''bob''"]
  note D = startChallenge_guards [OF c1 u1, where u = "''alice''" and decrypt = plainDecrypt
      and clb = providerUp and now = 7 and decrypt' = plainDecrypt and clb' = providerUp
      and now' = 8 and u' = "''bob''"]
  have a: "startChallenge plainDecrypt providerUp 7 ''alice'' ''c2'' lobby = (Inl NO_OPPONENT, lobby)"
    using A solo by blast
  have b: "startChallenge plainDecrypt providerUp 7 ''bob'' ''c1'' scenario100
        = (Inl ALREADY_LIVE, scenario100)"
    using B live by blast
  have d: "fst (startChallenge plainDecrypt providerUp 8 ''bob'' ''c1''
             (snd (startChallenge plainDecrypt providerUp 7 ''alice'' ''c1'' lobby))) \<noteq> Inr ()"
    using D alice by (metis fst_conv sum.distinct(1))
  have s: "\<exists>d'. simultaneousStarts (startRequest plainDecrypt providerUp 7 ''alice'')
              (startRequest plainDecrypt providerUp 8 ''bob'') ''c1'' lobby = (Inr (), Inr (), d')
           \<and> map_option status (challenges d' ''c1'') = Some Live"
    using D alice bob by blast
  show ?thesis
    using a b d s alice [THEN arg_cong, of fst] bob [THEN arg_cong, of fst] by simp
qed

section \<open>Lifecycle\<close>

lemma statusAfter_start:
  assumes "challenges d cid = Some c"
  shows "statusAfter cid (startChallenge decrypt clb now u cid d) = Some (status c)
       \<or> (statusAfter cid (startChallenge decrypt clb now u cid d) = Some Live
          \<and> status c \<noteq> Live \<and> status c \<noteq> Completed)"
  using assms
  by (auto simp: statusAfter_def startChallenge_def startRequest_def Let_def
           split: option.splits if_splits prod.splits)

lemma statusAfter_end:
  assumes "challenges d cid = Some c"
  shows "statusAfter cid (endChallenge now u cid d) = Some (status c)
       \<or> (statusAfter cid (endChallenge now u cid d) = Some Completed \<and> status c = Live)"
  using assms
  by (simp add: statusAfter_def endChallenge_def)

lemma cancelChallenge_result:
  assumes "challenges d cid = Some c"
  shows "cancelChallenge u r cid d =
           (if creator c \<noteq> u \<and> r \<noteq> ''admin'' then (Inl FORBIDDEN, d)
            else if status c = Completed then (Inl CANNOT_CANCEL, d)
            else (Inr (), save cid (c\<lparr>status := Cancelled\<rparr>) d))"
  using assms by (simp add: cancelChallenge_def Let_def)

lemma statusAfter_cancel:
  assumes "challenges d cid = Some c"
  shows "statusAfter cid (cancelChallenge u r cid d) = Some (status c)
       \<or> (statusAfter cid (cancelChallenge u r cid d) = Some Cancelled \<and> status c \<noteq> Completed)"
  using assms by (simp add: cancelChallenge_result statusAfter_def)

text \<open>
  Claim C5, as amended. Under \<^verbatim>\<open>startChallenge\<close>, \<^verbatim>\<open>endChallenge\<close> and
  \<^verbatim>\<open>cancelChallenge\<close> the status of a challenge stays or follows an edge of
  the lifecycle graph: pending or scheduled to live, live to completed, and
  pending, scheduled or live to cancelled (for \<^verbatim>\<open>startChallenge\<close> this is
  stated for challenges that are not cancelled). A completed challenge is
  left untouched by all three. For the creator or an admin,
  \<^verbatim>\<open>cancelChallenge\<close> fails with \<^verbatim>\<open>CANNOT_CANCEL\<close> when the challenge is
  completed and otherwise sets the status to cancelled, also when the
  challenge is live.
\<close>

theorem lifecycle_forward:
  assumes "challenges d cid = Some c"
  shows "(status c \<noteq> Cancelled \<longrightarrow>
            (\<exists>s'. statusAfter cid (startChallenge decrypt clb now u cid d) = Some s'
                  \<and> forward (status c) s'))
       \<and> (\<exists>s'. statusAfter cid (endChallenge now u cid d) = Some s' \<and> forward (status c) s')
       \<and> (\<exists>s'. statusAfter cid (cancelChallenge u r cid d) = Some s' \<and> forward (status c) s')
       \<and> (status c = Completed \<longrightarrow>
            snd (startChallenge decrypt clb now u cid d) = d
            \<and> snd (endChallenge now u cid d) = d
            \<and> snd (cancelChallenge u r cid d) = d)
       \<and> (creator c = u \<or> r = ''admin'' \<longrightarrow>
            (status c = Completed \<longrightarrow> cancelChallenge u r cid d = (Inl CANNOT_CANCEL, d))
            \<and> (status c \<noteq> Completed \<longrightarrow>
                 cancelChallenge u r cid d = (Inr (), save cid (c\<lparr>status := Cancelled\<rparr>) d)))"
proof -
  have st: "status c \<noteq> Cancelled \<longrightarrow>
            (\<exists>s'. statusAfter cid (startChallenge decrypt clb now u cid d) = Some s'
                  \<and> forward (status c) s')"
    using statusAfter_start [OF assms, of decrypt clb now u]
    by (cases "status c") (auto simp: forward_def edge_def)
  have en: "\<exists>s'. statusAfter cid (endChallenge now u cid d) = Some s' \<and> forward (status c) s'"
    using statusAfter_end [OF assms, of now u] by (auto simp: forward_def edge_def)
  have ca: "\<exists>s'. statusAfter cid (cancelChallenge u r cid d) = Some s' \<and> forward (status c) s'"
    using statusAfter_cancel [OF assms, of u r]
    by (cases "status c") (auto simp: forward_def edge_def)
  have terminal: "status c = Completed \<longrightarrow>
            snd (startChallenge decrypt clb now u cid d) = d
            \<and> snd (endChallenge now u cid d) = d
            \<and> snd (cancelChallenge u r cid d) = d"
    using assms
    by (auto simp: cancelChallenge_result endChallenge_def startChallenge_def startRequest_def
             Let_def split: option.splits)
  have guard: "creator c = u \<or> r = ''admin'' \<longrightarrow>
            (status c = Completed \<longrightarrow> cancelChallenge u r cid d = (Inl CANNOT_CANCEL, d))
            \<and> (status c \<noteq> Completed \<longrightarrow>
                 cancelChallenge u r cid d = (Inr (), save cid (c\<lparr>status := Cancelled\<rparr>) d))"
    using assms by (auto simp: cancelChallenge_result)
  show ?thesis using st en ca terminal guard by blast
qed

text \<open>
  Claim C5 as stated fails on a live challenge: its creator cancels it, the
  call succeeds and the status becomes cancelled.
\<close>

theorem cancelChallenge_live_counterexample:
  "challenges scenario100 ''c1'' = Some liveDuel
   \<and> status liveDuel = Live
   \<and> fst (cancelChallenge ''alice'' ''user'' ''c1'' scenario100) = Inr ()
   \<and> fst (cancelChallenge ''alice'' ''user'' ''c1'' scenario100) \<noteq> Inl CANNOT_CANCEL
   \<and> statusAfter ''c1'' (cancelChallenge ''alice'' ''user'' ''c1'' scenario100) = Some Cancelled"
  by (simp add: cancelChallenge_def statusAfter_def scenario100_def liveDuel_def
      newChallenge_def save_def Let_def)

theorem lifecycle_forward_witness:
  "cancelChallenge ''alice'' ''user'' ''c1'' scenario100
     = (Inr (), save ''c1'' (liveDuel\<lparr>status := Cancelled\<rparr>) scenario100)
   \<and> cancelChallenge ''alice'' ''user'' ''c1'' archive = (Inl CANNOT_CANCEL, archive)
   \<and> (\<exists>s'. statusAfter ''c1'' (startChallenge plainDecrypt providerUp 7 ''alice'' ''c1'' lobby) = Some s'
          \<and> forward Scheduled s')"
proof -
  let ?done = "liveDuel\<lparr>status := Completed, endedAt := Some 900\<rparr>"
  have c100: "challenges scenario100 ''c1'' = Some liveDuel"
    by (simp add: scenario100_def)
  have live: "creator liveDuel = ''alice''" "status liveDuel \<noteq> Completed"
    by (simp_all add: liveDuel_def newChallenge_def)
  have ended: "challenges archive ''c1'' = Some ?done"
    by (simp add: archive_def)
  have compl: "creator ?done = ''alice''" "status ?done = Completed"
    by (simp_all add: liveDuel_def newChallenge_def)
  have c1: "challenges lobby ''c1'' = Some scheduledDuel" by (simp add: lobby_def)
  have sched: "status scheduledDuel = Scheduled" "status scheduledDuel \<noteq> Cancelled"
    by (simp_all add: scheduledDuel_def newChallenge_def)
  have a: "cancelChallenge ''alice'' ''user'' ''c1'' scenario100
     = (Inr (), save ''c1'' (liveDuel\<lparr>status := Cancelled\<rparr>) scenario100)"
    using lifecycle_forward [OF c100, where u = "''alice''" and r = "''user''"] live by blast
  have b: "cancelChallenge ''alice'' ''user'' ''c1'' archive = (Inl CANNOT_CANCEL, archive)"
    using lifecycle_forward [OF ended, where u = "''alice''" and r = "''user''"] compl by blast
  have c: "\<exists>s'. statusAfter ''c1'' (startChallenge plainDecrypt providerUp 7 ''alice'' ''c1'' lobby) = Some s'
          \<and> forward Scheduled s'"
    using lifecycle_forward [OF c1, where decrypt = plainDecrypt and clb = providerUp
        and now = 7 and u = "''alice''"] sched by metis
  show ?thesis using a b c by blast
qed

text \<open>
  The guards of \<^verbatim>\<open>startChallenge\<close> name the statuses live and completed
  only. A cancelled challenge that has an opponent therefore goes live when a
  participant starts it.
\<close>

lemma startChallenge_after_cancel:
  "statusAfter ''c1'' (cancelChallenge ''alice'' ''user'' ''c1'' lobby) = Some Cancelled
   \<and> statusAfter ''c1'' (startChallenge plainDecrypt providerUp 7 ''bob'' ''c1''
         (snd (cancelChallenge ''alice'' ''user'' ''c1'' lobby))) = Some Live"
  by (simp add: statusAfter_def cancelChallenge_def startChallenge_def startRequest_def
      createBroadcasts_def getYouTubeService_def lobby_def scheduledDuel_def newChallenge_def
      people_def linkedUser_def plainDecrypt_def providerUp_def save_def Let_def)

section \<open>Self rating\<close>

text \<open>
  Claim C8 against the code. \<^verbatim>\<open>submitRating\<close> has no test of the caller
  against the participants: Alice, the creator of the live challenge, rates
  herself; the call succeeds, a rating record is created and her sum and
  count grow (from 9 and 2 to 14 and 3).
\<close>

theorem submitRating_accepts_participant:
  "challenges scenario100 ''c1'' = Some liveDuel
   \<and> creator liveDuel = ''alice'' \<and> status liveDuel = Live
   \<and> fst (submitRating 10 ''alice'' ''c1'' ''alice'' 5 scenario100) = Inr ()
   \<and> ratings (snd (submitRating 10 ''alice'' ''c1'' ''alice'' 5 scenario100))
       = ratings scenario100 @ [newRating ''c1'' ''alice'' ''alice'' 5 10]
   \<and> map_option creatorRatingSum
         (challenges (snd (submitRating 10 ''alice'' ''c1'' ''alice'' 5 scenario100)) ''c1'') = Some 14
   \<and> map_option creatorRatingCount
         (challenges (snd (submitRating 10 ''alice'' ''c1'' ''alice'' 5 scenario100)) ''c1'') = Some 3"
  by (simp add: submitRating_def scenario100_def liveDuel_def newChallenge_def newRating_def
      validScore_def ratingOf_def findRatings_def scoreTotal_def save_def Let_def)

section \<open>Viewer count\<close>

lemma viewerCountTick_fields:
  "e \<in> set (viewerCountTick now rs) \<Longrightarrow>
     map fst (snd (snd e)) = [''challengeId'', ''viewerCount'', ''timestamp'']"
  by (auto simp: viewerCountTick_def)

text \<open>
  Claim C9 against the code. The periodic tick sends, to a challenge room
  with two sockets, a \<^verbatim>\<open>viewer_count_update\<close> whose payload has the fields
  \<^verbatim>\<open>challengeId\<close>, \<^verbatim>\<open>viewerCount\<close> and \<^verbatim>\<open>timestamp\<close>: there is no
  \<^verbatim>\<open>peakViewers\<close> in it.
\<close>

theorem viewerCountTick_no_peakViewers:
  "viewerCountTick 5000 [(''socket-1'', [''socket-1'']), (''challenge:c1'', [''socket-1'', ''socket-2''])]
     = [(''challenge:c1'', ''viewer_count_update'',
          [(''challengeId'', JString ''c1''), (''viewerCount'', JNumber 2), (''timestamp'', JDate 5000)])]
   \<and> map_of [(''challengeId'', JString ''c1''), (''viewerCount'', JNumber 2), (''timestamp'', JDate 5000)]
         ''peakViewers'' = None"
  by (simp add: viewerCountTick_def startsWith_def element_def)

section \<open>Latest scores\<close>

lemma filter_updateFirst_other:
  assumes "\<And>x. P x \<Longrightarrow> \<not> Q x" and "\<And>x. P x \<Longrightarrow> \<not> Q (f x)"
  shows "filter Q (updateFirst P f xs) = filter Q xs"
  using assms by (induction xs) auto

lemma filter_updateFirst_same:
  assumes "\<And>x. P x \<Longrightarrow> P (f x)"
  shows "filter P (updateFirst P f xs)
           = (case filter P xs of [] \<Rightarrow> [] | x # rest \<Rightarrow> f x # rest)"
  using assms by (induction xs) auto

lemma length_filter_updateFirst:
  assumes "\<And>x. Q (f x) = Q x"
  shows "length (filter Q (updateFirst P f xs)) = length (filter Q xs)"
  using assms by (induction xs) auto

lemma length_updateFirst [simp]: "length (updateFirst P f xs) = length xs"
  by (induction xs) auto

lemma find_None_filter: "List.find P xs = None \<longleftrightarrow> filter P xs = []"
  by (induction xs) auto

lemma writeRating_other:
  assumes "(cid', u', p') \<noteq> (cid, u, p)"
  shows "filter (ratingOf cid' u' p') (writeRating now u cid p sc rs)
           = filter (ratingOf cid' u' p') rs"
proof (cases "List.find (ratingOf cid u p) rs")
  case None
  then show ?thesis using assms by (auto simp: writeRating_def ratingOf_def)
next
  case (Some r)
  have "filter (ratingOf cid' u' p')
          (updateFirst (ratingOf cid u p) (\<lambda>r. r\<lparr>score := sc, timestamp := now\<rparr>) rs)
        = filter (ratingOf cid' u' p') rs"
    using assms by (intro filter_updateFirst_other) (auto simp: ratingOf_def)
  then show ?thesis using Some by (simp add: writeRating_def)
qed

lemma writeRating_same:
  assumes "length (filter (ratingOf cid u p) rs) \<le> 1"
  shows "map score (filter (ratingOf cid u p) (writeRating now u cid p sc rs)) = [sc]"
proof (cases "List.find (ratingOf cid u p) rs")
  case None
  then have "filter (ratingOf cid u p) rs = []" by (simp add: find_None_filter)
  then show ?thesis using None by (simp add: writeRating_def ratingOf_def)
next
  case (Some r)
  then have "filter (ratingOf cid u p) rs \<noteq> []"
    using find_None_filter [of "ratingOf cid u p" rs] by auto
  with assms obtain x where x: "filter (ratingOf cid u p) rs = [x]"
    by (cases "filter (ratingOf cid u p) rs") auto
  have "filter (ratingOf cid u p)
          (updateFirst (ratingOf cid u p) (\<lambda>r. r\<lparr>score := sc, timestamp := now\<rparr>) rs)
        = [x\<lparr>score := sc, timestamp := now\<rparr>]"
    by (subst filter_updateFirst_same) (simp_all add: ratingOf_def x)
  then show ?thesis using Some by (simp add: writeRating_def)
qed

lemma submitAll_snoc:
  "submitAll cid (calls @ [(now, u, p, s)]) d =
     (case submitAll cid calls d of
        None \<Rightarrow> None
      | Some d1 \<Rightarrow>
          (case submitRating now u cid p s d1 of
             (Inr ok, d2) \<Rightarrow> Some d2
           | (Inl err, d2) \<Rightarrow> None))"
proof (induction calls arbitrary: d)
  case Nil
  then show ?case by (simp split: prod.splits sum.splits)
next
  case (Cons c calls)
  then show ?case by (cases c) (simp split: prod.splits sum.splits)
qed

lemma callsFor_snoc:
  "callsFor (calls @ [(now, u, p, s)]) u' p'
     = callsFor calls u' p' @ (if u' = u \<and> p' = p then [(now, u, p, s)] else [])"
  by (simp add: callsFor_def)

lemma latestScore_snoc:
  "latestScore (calls @ [(now, u, p, s)]) u' p'
     = (if u' = u \<and> p' = p then s else latestScore calls u' p')"
  by (simp add: latestScore_def callsFor_snoc)

lemma storeAgrees_start:
  assumes "unrated cid d"
  shows "storeAgrees cid [] d"
proof -
  have "\<forall>r\<in>set (ratings d). challenge r \<noteq> cid"
    using assms by (simp add: unrated_def filter_empty_conv)
  then have "filter (ratingOf cid u p) (ratings d) = []" for u p
    by (simp add: filter_empty_conv ratingOf_def)
  then show ?thesis by (simp add: storeAgrees_def callsFor_def)
qed

lemma storeAgrees_unique:
  assumes "storeAgrees cid calls d"
  shows "length (filter (ratingOf cid u p) (ratings d)) \<le> 1"
proof -
  have "length (map score (filter (ratingOf cid u p) (ratings d))) \<le> 1"
    unfolding assms [unfolded storeAgrees_def, rule_format, of u p] by simp
  then show ?thesis by simp
qed

lemma storeAgrees_step:
  assumes inv: "storeAgrees cid calls d1"
      and run: "submitRating now u cid p s d1 = (Inr (), d2)"
  shows "storeAgrees cid (calls @ [(now, u, p, s)]) d2"
proof -
  from submitRating_Inr [OF run]
  have r2: "ratings d2 = writeRating now u cid p s (ratings d1)" by auto
  have one: "length (filter (ratingOf cid u p) (ratings d1)) \<le> 1"
    using storeAgrees_unique [OF inv] .
  show ?thesis
    unfolding storeAgrees_def
  proof (intro allI)
    fix u' p'
    show "map score (filter (ratingOf cid u' p') (ratings d2))
            = (if callsFor (calls @ [(now, u, p, s)]) u' p' = [] then []
               else [latestScore (calls @ [(now, u, p, s)]) u' p'])"
    proof (cases "u' = u \<and> p' = p")
      case True
      then show ?thesis
        using writeRating_same [OF one, of now s]
        by (simp add: r2 callsFor_snoc latestScore_snoc)
    next
      case False
      then have ne: "(cid, u', p') \<noteq> (cid, u, p)" by auto
      have cf: "callsFor (calls @ [(now, u, p, s)]) u' p' = callsFor calls u' p'"
        using False by (auto simp: callsFor_snoc)
      have ls: "latestScore (calls @ [(now, u, p, s)]) u' p' = latestScore calls u' p'"
        using False by (auto simp: latestScore_snoc)
      show ?thesis
        unfolding cf ls r2 writeRating_other [OF ne]
        using inv [unfolded storeAgrees_def, rule_format, of u' p'] .
    qed
  qed
qed

lemma storeAgrees_run:
  "unrated cid d0 \<Longrightarrow> submitAll cid calls d0 = Some d \<Longrightarrow> storeAgrees cid calls d"
proof (induction calls arbitrary: d rule: rev_induct)
  case Nil
  then show ?case by (simp add: storeAgrees_start)
next
  case (snoc x calls)
  obtain now u p s where x: "x = (now, u, p, s)" by (cases x)
  from snoc.prems(2) obtain d1 where d1: "submitAll cid calls d0 = Some d1"
    and run: "submitRating now u cid p s d1 = (Inr (), d)"
    by (auto simp: x submitAll_snoc split: option.splits prod.splits sum.splits)
  from storeAgrees_step [OF snoc.IH [OF snoc.prems(1) d1] run] show ?case by (simp add: x)
qed

lemma sum_list_by_key:
  assumes "finite U" and "g ` set xs \<subseteq> U"
  shows "sum_list (map f xs) = (\<Sum>u\<in>U. sum_list (map f (filter (\<lambda>x. g x = u) xs)))"
  using assms(2)
proof (induction xs)
  case Nil
  then show ?case by simp
next
  case (Cons x xs)
  then have gx: "g x \<in> U" and sub: "g ` set xs \<subseteq> U" by auto
  have "(\<Sum>u\<in>U. sum_list (map f (filter (\<lambda>y. g y = u) (x # xs))))
          = (\<Sum>u\<in>U. (if u = g x then f x else 0) + sum_list (map f (filter (\<lambda>y. g y = u) xs)))"
    by (intro sum.cong) auto
  also have "\<dots> = (\<Sum>u\<in>U. if u = g x then f x else 0)
                   + (\<Sum>u\<in>U. sum_list (map f (filter (\<lambda>y. g y = u) xs)))"
    by (simp add: sum.distrib)
  also have "(\<Sum>u\<in>U. if u = g x then f x else 0) = f x"
    using assms(1) gx by simp
  finally show ?case using Cons.IH [OF sub] by simp
qed

lemma latestSum_store:
  assumes "storeAgrees cid calls d"
  shows "scoreTotal (findRatings d cid (Some p)) = latestSum calls p"
proof -
  let ?xs = "filter (\<lambda>r. challenge r = cid \<and> competitorRated r = p) (ratings d)"
  have key: "filter (\<lambda>r. rater r = u) ?xs = filter (ratingOf cid u p) (ratings d)" for u
    unfolding filter_filter by (rule filter_cong) (auto simp: ratingOf_def)
  have inner: "sum_list (map score (filter (\<lambda>r. rater r = u) ?xs)) = latestScore calls u p" for u
    unfolding key
    using assms [unfolded storeAgrees_def, rule_format, of u p]
    by (simp add: latestScore_def)
  have sub: "rater ` set ?xs \<subseteq> ratersOf calls p"
  proof
    fix u assume "u \<in> rater ` set ?xs"
    then obtain r where r: "r \<in> set (ratings d)" "ratingOf cid u p r"
      by (auto simp: ratingOf_def)
    then have "filter (ratingOf cid u p) (ratings d) \<noteq> []"
      by (auto simp: filter_empty_conv)
    then have "callsFor calls u p \<noteq> []"
      using assms [unfolded storeAgrees_def, rule_format, of u p] by auto
    then obtain x where "x \<in> set (callsFor calls u p)" by (cases "callsFor calls u p") auto
    then show "u \<in> ratersOf calls p"
      by (force simp: callsFor_def ratersOf_def)
  qed
  have "scoreTotal (findRatings d cid (Some p)) = sum_list (map score ?xs)"
    by (simp add: scoreTotal_sum_list findRatings_def)
  also have "\<dots> = (\<Sum>u\<in>ratersOf calls p. sum_list (map score (filter (\<lambda>r. rater r = u) ?xs)))"
    by (rule sum_list_by_key [OF _ sub]) (simp add: ratersOf_def)
  also have "\<dots> = latestSum calls p"
    by (simp only: inner latestSum_def)
  finally show ?thesis .
qed

lemma submitAll_last_consistent:
  assumes "submitAll cid calls d0 = Some d" and "calls \<noteq> []"
  shows "\<exists>c. challenges d cid = Some (ratedChallenge cid d c)"
proof -
  from assms(2) obtain pre x where calls: "calls = pre @ [x]"
    by (cases calls rule: rev_cases) auto
  obtain now u p s where x: "x = (now, u, p, s)" by (cases x)
  from assms(1) obtain d1 where "submitRating now u cid p s d1 = (Inr (), d)"
    by (auto simp: calls x submitAll_snoc split: option.splits prod.splits sum.splits)
  from submitRating_Inr [OF this] show ?thesis by auto
qed

text \<open>
  Claim C2. Take a challenge without stored ratings and a non-empty sequence
  of successful \<^verbatim>\<open>submitRating\<close> calls on it. After the last call the
  creator's rating sum is the sum, over the distinct raters who rated the
  creator, of each rater's latest score for the creator, and likewise for
  the opponent; the Rating collection holds at most one record for every
  (challenge, rater, rated participant); and when the last call is a
  resubmission (its rater had already rated that participant) the existing
  record is overwritten in place: the collection keeps its length and both
  rating counts of the challenge stay as they were.
\<close>

theorem submitRating_latest_scores:
  assumes "unrated cid d0"
      and "submitAll cid pre d0 = Some d1"
      and "submitRating now u cid p s d1 = (Inr (), d2)"
      and "challenges d2 cid = Some c2"
  shows "creatorRatingSum c2 = latestSum (pre @ [(now, u, p, s)]) (creator c2)
       \<and> (\<forall>opp. opponent c2 = Some opp \<longrightarrow>
            opponentRatingSum c2 = latestSum (pre @ [(now, u, p, s)]) opp)
       \<and> (\<forall>u' p'. length (filter (ratingOf cid u' p') (ratings d2)) \<le> 1)
       \<and> (callsFor pre u p \<noteq> [] \<longrightarrow>
            ratings d2 = updateFirst (ratingOf cid u p)
                           (\<lambda>r. r\<lparr>score := s, timestamp := now\<rparr>) (ratings d1)
            \<and> length (ratings d2) = length (ratings d1)
            \<and> (\<forall>c1. challenges d1 cid = Some c1 \<longrightarrow>
                 creatorRatingCount c2 = creatorRatingCount c1
                 \<and> opponentRatingCount c2 = opponentRatingCount c1))"
proof -
  let ?calls = "pre @ [(now, u, p, s)]"
  have inv1: "storeAgrees cid pre d1" by (rule storeAgrees_run [OF assms(1,2)])
  have inv2: "storeAgrees cid ?calls d2" by (rule storeAgrees_step [OF inv1 assms(3)])
  from submitRating_Inr [OF assms(3)] assms(4) obtain c where
    c: "challenges d1 cid = Some c" and c2: "c2 = ratedChallenge cid d2 c"
    and r2: "ratings d2 = writeRating now u cid p s (ratings d1)"
    by auto
  have cre: "creatorRatingSum c2 = latestSum ?calls (creator c2)"
    by (simp add: c2 ratedChallenge_def latestSum_store [OF inv2])
  have opp: "opponentRatingSum c2 = latestSum ?calls opp" if "opponent c2 = Some opp" for opp
    using that by (simp add: c2 ratedChallenge_def latestSum_store [OF inv2])
  have uniq: "length (filter (ratingOf cid u' p') (ratings d2)) \<le> 1" for u' p'
    by (rule storeAgrees_unique [OF inv2])
  have resub: "ratings d2 = updateFirst (ratingOf cid u p)
                           (\<lambda>r. r\<lparr>score := s, timestamp := now\<rparr>) (ratings d1)
            \<and> length (ratings d2) = length (ratings d1)
            \<and> (\<forall>c1. challenges d1 cid = Some c1 \<longrightarrow>
                 creatorRatingCount c2 = creatorRatingCount c1
                 \<and> opponentRatingCount c2 = opponentRatingCount c1)"
    if again: "callsFor pre u p \<noteq> []"
  proof -
    have "filter (ratingOf cid u p) (ratings d1) \<noteq> []"
      using inv1 [unfolded storeAgrees_def, rule_format, of u p] again by auto
    then obtain r where "List.find (ratingOf cid u p) (ratings d1) = Some r"
      using find_None_filter [of "ratingOf cid u p" "ratings d1"] by auto
    then have upd: "ratings d2 = updateFirst (ratingOf cid u p)
                           (\<lambda>r. r\<lparr>score := s, timestamp := now\<rparr>) (ratings d1)"
      by (simp add: r2 writeRating_def)
    have "pre \<noteq> []" using again by (auto simp: callsFor_def)
    from submitAll_last_consistent [OF assms(2) this] c
    obtain c0 where c1: "c = ratedChallenge cid d1 c0" by auto
    have len: "length (findRatings d2 cid who) = length (findRatings d1 cid who)" for who
      by (cases who) (simp_all add: findRatings_def upd length_filter_updateFirst)
    have old: "creatorRatingCount c = length (findRatings d1 cid (Some (creator c)))"
      "opponentRatingCount c = length (findRatings d1 cid (opponent c))"
      by (subst c1, simp add: ratedChallenge_def)+
    have new: "creatorRatingCount c2 = length (findRatings d2 cid (Some (creator c)))"
      "opponentRatingCount c2 = length (findRatings d2 cid (opponent c))"
      by (simp_all add: c2 ratedChallenge_def)
    have "creatorRatingCount c2 = creatorRatingCount c
                 \<and> opponentRatingCount c2 = opponentRatingCount c"
      unfolding new len using old by simp
    then show ?thesis using upd c by simp
  qed
  show ?thesis using cre opp uniq resub by blast
qed

lemma ratedThrice_ratings:
  "ratings ratedThrice = [newRating ''c1'' ''carol'' ''alice'' 3 1, newRating ''c1'' ''dave'' ''alice'' 4 2,
                          newRating ''c1'' ''carol'' ''bob'' 2 3]"
  by (simp add: ratedThrice_def submitRating_def scenario50_def newChallenge_def newRating_def
      validScore_def ratingOf_def save_def Let_def)

lemma ratedThrice_challenge:
  "map_option (\<lambda>c. (creator c, opponent c, status c)) (challenges ratedThrice ''c1'')
     = Some (''alice'', Some ''bob'', Live)"
  by (simp add: ratedThrice_def submitRating_def scenario50_def newChallenge_def
      validScore_def ratingOf_def save_def Let_def)

lemma ratingRun_ok: "submitAll ''c1'' ratingRun scenario50 = Some ratedThrice"
  by (simp add: ratingRun_def ratedThrice_def submitRating_def scenario50_def newChallenge_def
      validScore_def ratingOf_def save_def Let_def)

lemma ratedThrice_again:
  "submitRating 4 ''carol'' ''c1'' ''alice'' 5 ratedThrice
     = (Inr (), snd (submitRating 4 ''carol'' ''c1'' ''alice'' 5 ratedThrice))"
  using ratedThrice_challenge
  by (auto simp: submitRating_def validScore_def Let_def split: option.splits)

theorem submitRating_latest_scores_witness:
  "unrated ''c1'' scenario50
   \<and> submitAll ''c1'' ratingRun scenario50 = Some ratedThrice
   \<and> fst (submitRating 4 ''carol'' ''c1'' ''alice'' 5 ratedThrice) = Inr ()
   \<and> (\<exists>c2. challenges (snd (submitRating 4 ''carol'' ''c1'' ''alice'' 5 ratedThrice)) ''c1'' = Some c2
         \<and> creatorRatingSum c2 = 9 \<and> opponentRatingSum c2 = 2)
   \<and> length (ratings (snd (submitRating 4 ''carol'' ''c1'' ''alice'' 5 ratedThrice))) = 3"
proof -
  let ?d2 = "snd (submitRating 4 ''carol'' ''c1'' ''alice'' 5 ratedThrice)"
  have fresh: "unrated ''c1'' scenario50" by (simp add: unrated_def scenario50_def)
  from submitRating_Inr [OF ratedThrice_again] ratedThrice_challenge
  obtain c2 where c2: "challenges ?d2 ''c1'' = Some c2"
    and who: "creator c2 = ''alice''" "opponent c2 = Some ''bob''"
    by (auto simp: ratedChallenge_def)
  have again: "callsFor ratingRun ''carol'' ''alice'' \<noteq> []"
    by (simp add: callsFor_def ratingRun_def)
  have ratersA: "ratersOf (ratingRun @ [(4, ''carol'', ''alice'', 5)]) ''alice'' = {''carol'', ''dave''}"
    and ratersB: "ratersOf (ratingRun @ [(4, ''carol'', ''alice'', 5)]) ''bob'' = {''carol''}"
    by (auto simp: ratersOf_def ratingRun_def)
  have latest: "latestScore (ratingRun @ [(4, ''carol'', ''alice'', 5)]) ''carol'' ''alice'' = 5"
    "latestScore (ratingRun @ [(4, ''carol'', ''alice'', 5)]) ''dave'' ''alice'' = 4"
    "latestScore (ratingRun @ [(4, ''carol'', ''alice'', 5)]) ''carol'' ''bob'' = 2"
    by (simp_all add: latestScore_def callsFor_def ratingRun_def)
  have sumA: "latestSum (ratingRun @ [(4, ''carol'', ''alice'', 5)]) ''alice'' = 9"
    by (simp add: latestSum_def ratersA latest)
  have sumB: "latestSum (ratingRun @ [(4, ''carol'', ''alice'', 5)]) ''bob'' = 2"
    by (simp add: latestSum_def ratersB latest)
  from submitRating_latest_scores [OF fresh ratingRun_ok ratedThrice_again c2] who again
  have "creatorRatingSum c2 = 9" "opponentRatingSum c2 = 2"
    "length (ratings ?d2) = length (ratings ratedThrice)"
    by (simp_all add: sumA sumB)
  then show ?thesis
    using fresh ratingRun_ok c2 ratedThrice_again [THEN arg_cong, of fst]
    by (simp add: ratedThrice_ratings)
qed

end
